theory Spec2Isabelle
  imports Complex_Main
begin

section \<open>Python values used by the feedback orchestrator\<close>

text \<open>
  The development embeds \<^verbatim>\<open>api/feedback/feedback_processor.py\<close> and the parts of
  \<^verbatim>\<open>api/feedback/routes.py\<close> that drive it. Python floats are read as real numbers
  (no rounding error, no NaN), Python ints as \<open>int\<close>, \<open>str\<close> as \<open>string\<close>, and a raised
  exception as the left injection of a sum.
\<close>

datatype error =
    ValueError string
  | TypeError
  | KeyError string
  | BinasciiError
  | JSONDecodeError
  | AttributeError
  | ZeroDivisionError
  | CollaboratorError string
  | RedisError

text \<open>\<^verbatim>\<open>raise ValueError(f"Session {session_id} not found")\<close>\<close>

definition session_not_found :: "string \<Rightarrow> error" where
  "session_not_found session_id = ValueError (''Session '' @ session_id @ '' not found'')"

text \<open>\<^verbatim>\<open>d.get(key, default)\<close> on an optional key.\<close>

definition get_default :: "'a option \<Rightarrow> 'a \<Rightarrow> 'a" where
  "get_default field dflt = (case field of None \<Rightarrow> dflt | Some x \<Rightarrow> x)"

text \<open>\<^verbatim>\<open>sum(xs)\<close>: a left fold starting at 0.\<close>

definition py_sum :: "'a::monoid_add list \<Rightarrow> 'a" where
  "py_sum xs = foldl (+) 0 xs"

text \<open>
  \<^verbatim>\<open>round(x, 1)\<close> yields the multiple of \<open>1/10\<close> closest to the float \<open>x\<close>. The
  embedding computes with exact reals. Where the exact value lies midway between two
  tenths, the float the code rounds lies just below, just above or exactly on the
  midpoint, depending on the rounding errors of the operations that produced it; the
  exact value does not determine the side. The side is therefore an argument:
  \<open>tie_up x\<close> says whether the midpoint value \<open>x\<close> goes to the upper tenth.
\<close>

definition round_tenths :: "(real \<Rightarrow> bool) \<Rightarrow> real \<Rightarrow> int" where
  "round_tenths tie_up x =
     (let f = \<lfloor>x * 10\<rfloor>; d = x * 10 - of_int f
      in if d < 1 / 2 then f
         else if 1 / 2 < d then f + 1
         else if tie_up x then f + 1 else f)"

definition py_round1 :: "(real \<Rightarrow> bool) \<Rightarrow> real \<Rightarrow> real" where
  "py_round1 tie_up x = of_int (round_tenths tie_up x) / 10"

text \<open>\<^verbatim>\<open>int(x)\<close> on a float truncates towards zero.\<close>

definition py_int :: "real \<Rightarrow> int" where
  "py_int x = (if 0 \<le> x then \<lfloor>x\<rfloor> else \<lceil>x\<rceil>)"

text \<open>
  A value decoded by \<^verbatim>\<open>json.loads\<close>. \<^verbatim>\<open>d.get(key)\<close> on a missing key gives
  \<^verbatim>\<open>None\<close>, which is \<open>JNull\<close>.
\<close>

datatype json =
    JNull
  | JBool bool
  | JNumber real
  | JString string
  | JArray "json list"
  | JObject "(string \<times> json) list"

text \<open>The truth value Python gives a decoded value.\<close>

fun py_truth :: "json \<Rightarrow> bool" where
  "py_truth JNull = False"
| "py_truth (JBool b) = b"
| "py_truth (JNumber x) = (x \<noteq> 0)"
| "py_truth (JString s) = (s \<noteq> [])"
| "py_truth (JArray xs) = (xs \<noteq> [])"
| "py_truth (JObject kvs) = (kvs \<noteq> [])"

text \<open>
  The number a decoded value is in arithmetic with a number: \<^verbatim>\<open>True\<close> is 1 and
  \<^verbatim>\<open>False\<close> is 0; \<^verbatim>\<open>None\<close>, strings, lists and dicts raise \<^verbatim>\<open>TypeError\<close>.
\<close>

fun py_number :: "json \<Rightarrow> real option" where
  "py_number (JBool b) = Some (if b then 1 else 0)"
| "py_number (JNumber x) = Some x"
| "py_number v = None"

section \<open>Metric snapshots\<close>

text \<open>
  The analyzers return dataclasses; \<^verbatim>\<open>to_dict\<close> turns them into nested dicts.
  Of each dataclass only the fields the orchestrator reads are kept. A dict is a
  record of optional keys, since the orchestrator reads every key with
  \<^verbatim>\<open>.get(key, default)\<close> and the HTTP variant of generate-feedback accepts any
  dict. \<open>a_other_keys\<close> and \<open>v_other_keys\<close> say whether the dict holds keys besides the
  ones named here (\<^verbatim>\<open>to_dict\<close> always adds \<^verbatim>\<open>timestamp_ms\<close> and
  \<^verbatim>\<open>processing_time_ms\<close>); they only matter for the truth value of the dict.
\<close>

record ToneMetrics =
  tm_pitch_variance :: real
  tm_pitch_range :: "real \<times> real"

record EmotionMetrics =
  em_stress_level :: real

record SpeechMetrics =
  sm_filler_words :: "int list"  \<comment> \<open>the \<^verbatim>\<open>count\<close> of each filler-word entry\<close>
  sm_articulation_score :: real
  sm_speaking_rate :: real

record AudioAnalysisResult =
  ar_tone :: ToneMetrics
  ar_emotion :: EmotionMetrics
  ar_speech :: SpeechMetrics

record FacialMetrics =
  fm_eye_contact :: real
  fm_smile_genuineness :: real

record BodyMetrics =
  bm_posture :: string
  bm_energy_level :: real

record ProfessionalPresenceMetrics =
  pm_overall_polish :: real

record VisionAnalysisResult =
  vr_facial :: FacialMetrics
  vr_body :: BodyMetrics
  vr_professional :: ProfessionalPresenceMetrics
  vr_frame_number :: int
  vr_timestamp_ms :: json

record tone_dict =
  pitch_variance :: "real option"
  pitch_range :: "(real \<times> real) option"

record emotion_dict =
  stress_level :: "real option"

record speech_dict =
  filler_words :: "int list option"
  articulation_score :: "real option"
  speaking_rate :: "real option"

record audio_metrics =
  tone :: "tone_dict option"
  emotion :: "emotion_dict option"
  speech :: "speech_dict option"
  a_other_keys :: bool

record facial_dict =
  eye_contact :: "real option"
  smile_genuineness :: "real option"

record body_dict =
  posture :: "string option"
  energy_level :: "real option"

record professional_dict =
  overall_polish :: "real option"

record vision_metrics =
  facial :: "facial_dict option"
  body :: "body_dict option"
  professional :: "professional_dict option"
  v_other_keys :: bool

text \<open>\<^verbatim>\<open>AudioAnalyzer.to_dict\<close> and \<^verbatim>\<open>VisionAnalyzer.to_dict\<close>: every key is present.\<close>

definition audio_to_dict :: "AudioAnalysisResult \<Rightarrow> audio_metrics" where
  "audio_to_dict r =
     \<lparr>tone = Some \<lparr>pitch_variance = Some (tm_pitch_variance (ar_tone r)),
                    pitch_range = Some (tm_pitch_range (ar_tone r))\<rparr>,
      emotion = Some \<lparr>stress_level = Some (em_stress_level (ar_emotion r))\<rparr>,
      speech = Some \<lparr>filler_words = Some (sm_filler_words (ar_speech r)),
                      articulation_score = Some (sm_articulation_score (ar_speech r)),
                      speaking_rate = Some (sm_speaking_rate (ar_speech r))\<rparr>,
      a_other_keys = True\<rparr>"

definition vision_to_dict :: "VisionAnalysisResult \<Rightarrow> vision_metrics" where
  "vision_to_dict r =
     \<lparr>facial = Some \<lparr>eye_contact = Some (fm_eye_contact (vr_facial r)),
                      smile_genuineness = Some (fm_smile_genuineness (vr_facial r))\<rparr>,
      body = Some \<lparr>posture = Some (bm_posture (vr_body r)),
                    energy_level = Some (bm_energy_level (vr_body r))\<rparr>,
      professional = Some \<lparr>overall_polish = Some (pm_overall_polish (vr_professional r))\<rparr>,
      v_other_keys = True\<rparr>"

text \<open>The truth value of an optional dict: \<^verbatim>\<open>None\<close> and \<^verbatim>\<open>{}\<close> are false.\<close>

definition audio_truthy :: "audio_metrics option \<Rightarrow> bool" where
  "audio_truthy a =
     (case a of None \<Rightarrow> False
      | Some d \<Rightarrow> tone d \<noteq> None \<or> emotion d \<noteq> None \<or> speech d \<noteq> None \<or> a_other_keys d)"

definition vision_truthy :: "vision_metrics option \<Rightarrow> bool" where
  "vision_truthy v =
     (case v of None \<Rightarrow> False
      | Some d \<Rightarrow> facial d \<noteq> None \<or> body d \<noteq> None \<or> professional d \<noteq> None \<or> v_other_keys d)"

text \<open>\<^verbatim>\<open>metrics and key in metrics\<close>, then \<^verbatim>\<open>metrics[key]\<close>.\<close>

definition sub_dict :: "'d option \<Rightarrow> ('d \<Rightarrow> 'k option) \<Rightarrow> 'k option" where
  "sub_dict metrics key = (case metrics of None \<Rightarrow> None | Some d \<Rightarrow> key d)"

section \<open>Score fusion: \<^verbatim>\<open>FeedbackProcessor._calculate_scores\<close>\<close>

record scores =
  confidence :: real
  engagement :: real
  clarity :: real
  authenticity :: real
  professionalPresence :: real

definition confidence_components ::
  "audio_metrics option \<Rightarrow> vision_metrics option \<Rightarrow> real list" where
  "confidence_components audio vision =
     (case sub_dict audio tone of None \<Rightarrow> []
      | Some t \<Rightarrow>
          (let pv = get_default (pitch_variance t) 20;
               vocal_steadiness = max 0 (100 - pv * 2)
           in [vocal_steadiness * 0.4]))
     @ (case sub_dict vision facial of None \<Rightarrow> []
        | Some f \<Rightarrow> [get_default (eye_contact f) 50 * 0.3])
     @ (case sub_dict vision body of None \<Rightarrow> []
        | Some b \<Rightarrow>
            (let p = get_default (posture b) ''neutral'';
                 posture_score = (if p = ''open'' then 90 else if p = ''neutral'' then 70 else 50)
             in [posture_score * 0.3]))"

definition engagement_components ::
  "audio_metrics option \<Rightarrow> vision_metrics option \<Rightarrow> real list" where
  "engagement_components audio vision =
     (case sub_dict vision body of None \<Rightarrow> []
      | Some b \<Rightarrow> [get_default (energy_level b) 50 * 0.5])
     @ (case sub_dict audio tone of None \<Rightarrow> []
        | Some t \<Rightarrow>
            (let r = get_default (pitch_range t) (0, 0);
                 vocal_variety = min ((snd r - fst r) / 3) 100
             in [vocal_variety * 0.5]))"

definition clarity_components :: "audio_metrics option \<Rightarrow> real list" where
  "clarity_components audio =
     (case sub_dict audio speech of None \<Rightarrow> []
      | Some s \<Rightarrow>
          (let articulation = get_default (articulation_score s) 70;
               rate = get_default (speaking_rate s) 150;
               deviation = \<bar>rate - 150\<bar>;
               pace_score = max 0 (100 - deviation * 2)
           in [articulation * 0.5, pace_score * 0.5]))"

definition clamp_score :: "real \<Rightarrow> real" where
  "clamp_score x = max 0 (min 100 x)"

text \<open>The baseline is passed in and never read.\<close>

definition calculate_scores ::
  "audio_metrics option \<Rightarrow> vision_metrics option \<Rightarrow> 'b option \<Rightarrow> scores" where
  "calculate_scores audio vision baseline =
     (let cc = confidence_components audio vision;
          ec = engagement_components audio vision;
          lc = clarity_components audio
      in \<lparr>confidence = clamp_score (if cc \<noteq> [] then py_sum cc else 70),
          engagement = clamp_score (if ec \<noteq> [] then py_sum ec else 70),
          clarity = clamp_score (if lc \<noteq> [] then py_sum lc else 70),
          authenticity = clamp_score
            (case sub_dict vision facial of None \<Rightarrow> 70
             | Some f \<Rightarrow> get_default (smile_genuineness f) 0.5 * 100),
          professionalPresence = clamp_score
            (case sub_dict vision professional of None \<Rightarrow> 70
             | Some p \<Rightarrow> get_default (overall_polish p) 70)\<rparr>)"

section \<open>Sessions and the processor\<close>

record hist_entry =
  h_timestamp_ms :: real
  h_scores :: scores

type_synonym baseline_dict = "(string \<times> real) list"

text \<open>
  A session is a dict; \<^verbatim>\<open>end_time\<close> and \<^verbatim>\<open>duration\<close> are keys that only
  \<^verbatim>\<open>stop_session\<close> adds.
\<close>

record session =
  session_id :: string
  user_id :: string
  session_type :: string
  start_time :: real
  frame_count :: int
  audio_chunk_count :: int
  baseline :: "baseline_dict option"
  score_history :: "hist_entry list"
  end_time :: "real option"
  duration :: "real option"

text \<open>
  \<open>redis_client\<close> says whether a client was configured (\<^verbatim>\<open>self.redis_client\<close> is not
  \<^verbatim>\<open>None\<close>).
\<close>

record processor =
  enable_audio :: bool
  enable_vision :: bool
  frame_sample_rate :: int
  frame_counter :: int
  redis_client :: bool
  sessions :: "string \<rightharpoonup> session"

type_synonym bytes = "nat list"
type_synonym image = "nat list"

text \<open>
  What the collaborators and the clocks answer while one call is handled: the image
  decoder (\<^verbatim>\<open>None\<close> when it cannot decode), the two analyzers (which may raise),
  whether a Redis command returns or raises, \<^verbatim>\<open>time.time()\<close>, the event loop's
  clock in milliseconds, and the side on which float rounding error leaves a value that
  \<^verbatim>\<open>round(x, 1)\<close> finds midway between two tenths.
\<close>

record env =
  cv2_imdecode :: "bytes \<Rightarrow> image option"
  vision_analyze :: "image \<Rightarrow> int \<Rightarrow> json \<Rightarrow> error + VisionAnalysisResult"
  audio_analyze :: "bytes \<Rightarrow> json \<Rightarrow> int \<Rightarrow> error + AudioAnalysisResult"
  redis_ok :: bool
  clock :: real
  loop_time_ms :: int
  float_tie_up :: "real \<Rightarrow> bool"

text \<open>\<^verbatim>\<open>if self.redis_client: await self.redis_client.<command>(...)\<close>\<close>

definition redis_raises :: "env \<Rightarrow> processor \<Rightarrow> bool" where
  "redis_raises E P = (redis_client P \<and> \<not> redis_ok E)"

text \<open>\<^verbatim>\<open>_load_user_baseline\<close> always returns \<^verbatim>\<open>None\<close>.\<close>

definition load_user_baseline :: "string \<Rightarrow> baseline_dict option" where
  "load_user_baseline uid = None"

definition start_session ::
  "env \<Rightarrow> processor \<Rightarrow> string \<Rightarrow> string \<Rightarrow> string \<Rightarrow> (error + session) \<times> processor" where
  "start_session E P sid uid stype =
     (let session_data =
            \<lparr>session_id = sid, user_id = uid, session_type = stype, start_time = clock E,
             frame_count = 0, audio_chunk_count = 0, baseline = load_user_baseline uid,
             score_history = [], end_time = None, duration = None\<rparr>;
          P1 = P\<lparr>sessions := (sessions P)(sid \<mapsto> session_data)\<rparr>
      in if redis_raises E P1 then (Inl RedisError, P1) else (Inr session_data, P1))"

text \<open>\<^verbatim>\<open>xs[-n:]\<close> for a positive \<open>n\<close>.\<close>

definition py_tail :: "nat \<Rightarrow> 'a list \<Rightarrow> 'a list" where
  "py_tail n xs = drop (length xs - n) xs"

text \<open>\<^verbatim>\<open>a or b\<close> on an optional int: \<^verbatim>\<open>None\<close> and 0 are false.\<close>

definition py_or :: "int option \<Rightarrow> int \<Rightarrow> int" where
  "py_or a b = (case a of None \<Rightarrow> b | Some x \<Rightarrow> if x = 0 then b else x)"

subsection \<open>\<^verbatim>\<open>_calculate_trends\<close>\<close>

record trends =
  confidenceDelta :: real
  engagementDelta :: real
  clarityDelta :: real

definition calculate_trends :: "env \<Rightarrow> session \<Rightarrow> scores \<Rightarrow> trends" where
  "calculate_trends E s current_scores =
     (let history = score_history s
      in if length history < 5
         then \<lparr>confidenceDelta = 0, engagementDelta = 0, clarityDelta = 0\<rparr>
         else
           (let recent = py_tail 5 history;
                avg_confidence =
                  py_sum (map (\<lambda>h. confidence (h_scores h)) recent) / real (length recent);
                avg_engagement =
                  py_sum (map (\<lambda>h. engagement (h_scores h)) recent) / real (length recent);
                avg_clarity =
                  py_sum (map (\<lambda>h. clarity (h_scores h)) recent) / real (length recent)
            in \<lparr>confidenceDelta =
                  py_round1 (float_tie_up E) (confidence current_scores - avg_confidence),
                engagementDelta =
                  py_round1 (float_tie_up E) (engagement current_scores - avg_engagement),
                clarityDelta =
                  py_round1 (float_tie_up E) (clarity current_scores - avg_clarity)\<rparr>))"

subsection \<open>\<^verbatim>\<open>_generate_suggestions\<close>\<close>

text \<open>An f-string with one formatted integer is kept as prefix, number and suffix.\<close>

datatype text_msg = Text string | Fmt string int string

record suggestion =
  category :: string
  priority :: string
  message :: text_msg
  improvement :: string

definition generate_suggestions ::
  "audio_metrics option \<Rightarrow> vision_metrics option \<Rightarrow> scores \<Rightarrow> suggestion list" where
  "generate_suggestions audio vision sc =
     (if confidence sc < 60 then
        (case sub_dict audio speech of None \<Rightarrow> []
         | Some s \<Rightarrow>
             (let total_fillers = py_sum (get_default (filler_words s) [])
              in if 5 < total_fillers
                 then [\<lparr>category = ''speech'', priority = ''high'',
                        message = Fmt ''You used '' total_fillers '' filler words'',
                        improvement = ''Try pausing instead of using filler words''\<rparr>]
                 else []))
      else [])
     @ (if engagement sc < 60 then
          (case sub_dict vision body of None \<Rightarrow> []
           | Some b \<Rightarrow>
               if get_default (energy_level b) 100 < 50
               then [\<lparr>category = ''body'', priority = ''medium'',
                      message = Text ''Energy level appears low'',
                      improvement = ''Try standing up or using more gestures''\<rparr>]
               else [])
        else [])
     @ (if clarity sc < 60 then
          (case sub_dict audio speech of None \<Rightarrow> []
           | Some s \<Rightarrow>
               (let rate = get_default (speaking_rate s) 150
                in if 180 < rate
                   then [\<lparr>category = ''speech'', priority = ''high'',
                          message = Fmt ''Speaking too fast at '' (py_int rate) '' WPM'',
                          improvement = ''Slow down to 140-160 WPM for clarity''\<rparr>]
                   else []))
        else [])
     @ (case sub_dict audio emotion of None \<Rightarrow> []
        | Some e \<Rightarrow>
            if 70 < get_default (stress_level e) 0
            then [\<lparr>category = ''voice'', priority = ''high'',
                   message = Text ''High stress detected in your voice'',
                   improvement = ''Take a deep breath and pause''\<rparr>]
            else [])"

subsection \<open>\<^verbatim>\<open>_calculate_session_summary\<close>\<close>

record full_summary =
  su_session_id :: string
  su_user_id :: string
  su_duration :: real
  su_frames_processed :: int
  su_audio_chunks_processed :: int
  su_average_scores :: scores
  su_peak_moment :: hist_entry
  su_start_time :: real
  su_end_time :: "real option"

text \<open>
  The summary dict has one of two key sets: \<^verbatim>\<open>session_id, duration, message\<close> when no
  score was recorded, the nine keys of \<open>full_summary\<close> otherwise.
\<close>

datatype summary = NoData string real string | Summary full_summary

text \<open>\<^verbatim>\<open>max(xs, key=k)\<close> on a non-empty list: the first element with the largest key.\<close>

fun py_max_by :: "('a \<Rightarrow> real) \<Rightarrow> 'a \<Rightarrow> 'a list \<Rightarrow> 'a" where
  "py_max_by k best [] = best"
| "py_max_by k best (x # xs) = py_max_by k (if k best < k x then x else best) xs"

definition scores_values :: "scores \<Rightarrow> real list" where
  "scores_values sc =
     [confidence sc, engagement sc, clarity sc, authenticity sc, professionalPresence sc]"

definition calculate_session_summary :: "session \<Rightarrow> summary" where
  "calculate_session_summary session_data =
     (case score_history session_data of
        [] \<Rightarrow> NoData (session_id session_data) (get_default (duration session_data) 0)
                ''No data collected''
      | h0 # rest \<Rightarrow>
          (let hist = h0 # rest;
               n = real (length hist);
               avg = (\<lambda>field. py_sum (map (\<lambda>h. field (h_scores h)) hist) / n)
           in Summary
                \<lparr>su_session_id = session_id session_data,
                 su_user_id = user_id session_data,
                 su_duration = get_default (duration session_data) 0,
                 su_frames_processed = frame_count session_data,
                 su_audio_chunks_processed = audio_chunk_count session_data,
                 su_average_scores =
                   \<lparr>confidence = avg confidence, engagement = avg engagement,
                    clarity = avg clarity, authenticity = avg authenticity,
                    professionalPresence = avg professionalPresence\<rparr>,
                 su_peak_moment = py_max_by (\<lambda>h. py_sum (scores_values (h_scores h))) h0 rest,
                 su_start_time = start_time session_data,
                 su_end_time = end_time session_data\<rparr>))"

subsection \<open>\<^verbatim>\<open>stop_session\<close>\<close>

definition stop_session :: "env \<Rightarrow> processor \<Rightarrow> string \<Rightarrow> (error + summary) \<times> processor" where
  "stop_session E P sid =
     (case sessions P sid of
        None \<Rightarrow> (Inl (session_not_found sid), P)
      | Some s \<Rightarrow>
          (let session_data = s\<lparr>end_time := Some (clock E),
                                duration := Some (clock E - start_time s)\<rparr>;
               summary = calculate_session_summary session_data;
               P1 = P\<lparr>sessions := (sessions P)(sid := None)\<rparr>
           in if redis_raises E P1 then (Inl RedisError, P1) else (Inr summary, P1)))"

subsection \<open>\<^verbatim>\<open>process_frame\<close> and \<^verbatim>\<open>process_audio\<close>\<close>

definition process_frame ::
  "env \<Rightarrow> processor \<Rightarrow> string \<Rightarrow> bytes \<Rightarrow> json \<Rightarrow> int option
     \<Rightarrow> (error + vision_metrics option) \<times> processor" where
  "process_frame E P sid frame_data timestamp_ms frame_number =
     (if \<not> enable_vision P then (Inr None, P)
      else
        (let P1 = P\<lparr>frame_counter := frame_counter P + 1\<rparr>
         in if frame_sample_rate P1 = 0 then (Inl ZeroDivisionError, P1)
            else if frame_counter P1 mod frame_sample_rate P1 \<noteq> 0 then (Inr None, P1)
            else
              (case sessions P1 sid of
                 None \<Rightarrow> (Inl (session_not_found sid), P1)
               | Some s \<Rightarrow>
                   (case cv2_imdecode E frame_data of
                      None \<Rightarrow> (Inr None, P1)
                    | Some frame \<Rightarrow>
                        (case vision_analyze E frame (py_or frame_number (frame_counter P1))
                                timestamp_ms of
                           Inl e \<Rightarrow> (Inl e, P1)
                         | Inr vision_result \<Rightarrow>
                             (let result_dict = vision_to_dict vision_result;
                                  P2 = P1\<lparr>sessions := (sessions P1)
                                          (sid \<mapsto> s\<lparr>frame_count := frame_count s + 1\<rparr>)\<rparr>
                              in if redis_raises E P2 then (Inl RedisError, P2)
                                 else (Inr (Some result_dict), P2)))))))"

text \<open>
  \<^verbatim>\<open>np.frombuffer(audio_data, dtype=np.float32)\<close> raises \<^verbatim>\<open>ValueError\<close> when the
  buffer is not a whole number of 4-byte elements.
\<close>

definition np_frombuffer_float32 :: "bytes \<Rightarrow> error + bytes" where
  "np_frombuffer_float32 audio_data =
     (if length audio_data mod 4 \<noteq> 0
      then Inl (ValueError ''buffer size must be a multiple of element size'')
      else Inr audio_data)"

definition process_audio ::
  "env \<Rightarrow> processor \<Rightarrow> string \<Rightarrow> bytes \<Rightarrow> json \<Rightarrow> int
     \<Rightarrow> (error + audio_metrics option) \<times> processor" where
  "process_audio E P sid audio_data timestamp_ms sample_rate =
     (if \<not> enable_audio P then (Inr None, P)
      else
        (case sessions P sid of
           None \<Rightarrow> (Inl (session_not_found sid), P)
         | Some s \<Rightarrow>
             (case np_frombuffer_float32 audio_data of
                Inl e \<Rightarrow> (Inl e, P)
              | Inr audio_array \<Rightarrow>
                  (case audio_analyze E audio_array timestamp_ms sample_rate of
                     Inl e \<Rightarrow> (Inl e, P)
                   | Inr audio_result \<Rightarrow>
                       (let result_dict = audio_to_dict audio_result;
                            P1 = P\<lparr>sessions := (sessions P)
                                   (sid \<mapsto> s\<lparr>audio_chunk_count := audio_chunk_count s + 1\<rparr>)\<rparr>
                        in if redis_raises E P1 then (Inl RedisError, P1)
                           else (Inr (Some result_dict), P1))))))"

subsection \<open>\<^verbatim>\<open>generate_feedback\<close>\<close>

record metrics_excerpt =
  mx_facial :: "facial_dict option"
  mx_body :: "body_dict option"
  mx_voice :: "tone_dict option"
  mx_speech :: "speech_dict option"

record FeedbackMessage =
  fb_timestamp_ms :: real
  fb_session_id :: string
  fb_type :: string
  fb_scores :: scores
  fb_metrics :: metrics_excerpt
  fb_suggestions :: "suggestion list"
  fb_trends :: trends

text \<open>The history entry one call records, and the history after recording it.\<close>

definition append_history :: "hist_entry list \<Rightarrow> hist_entry \<Rightarrow> hist_entry list" where
  "append_history history e =
     (let h1 = history @ [e] in if 50 < length h1 then py_tail 50 h1 else h1)"

definition generate_feedback ::
  "env \<Rightarrow> processor \<Rightarrow> string \<Rightarrow> audio_metrics option \<Rightarrow> vision_metrics option \<Rightarrow> real option
     \<Rightarrow> (error + FeedbackMessage) \<times> processor" where
  "generate_feedback E P sid audio vision timestamp_ms =
     (case sessions P sid of
        None \<Rightarrow> (Inl (session_not_found sid), P)
      | Some s \<Rightarrow>
          (let ts = (case timestamp_ms of None \<Rightarrow> of_int (py_int (clock E * 1000))
                     | Some t \<Rightarrow> t);
               sc = calculate_scores audio vision (baseline s);
               suggestions = generate_suggestions audio vision sc;
               tr = calculate_trends E s sc;
               s1 = s\<lparr>score_history :=
                        append_history (score_history s) \<lparr>h_timestamp_ms = ts, h_scores = sc\<rparr>\<rparr>;
               P1 = P\<lparr>sessions := (sessions P)(sid \<mapsto> s1)\<rparr>;
               metrics =
                 \<lparr>mx_facial = (if vision_truthy vision then sub_dict vision facial else None),
                  mx_body = (if vision_truthy vision then sub_dict vision body else None),
                  mx_voice = (if audio_truthy audio then sub_dict audio tone else None),
                  mx_speech = (if audio_truthy audio then sub_dict audio speech else None)\<rparr>;
               feedback =
                 \<lparr>fb_timestamp_ms = ts, fb_session_id = sid, fb_type = ''realtime'',
                  fb_scores = sc, fb_metrics = metrics, fb_suggestions = suggestions,
                  fb_trends = tr\<rparr>
           in if redis_raises E P1 then (Inl RedisError, P1) else (Inr feedback, P1)))"

section \<open>HTTP routes\<close>

record StopSessionResponse =
  sr_session_id :: string
  sr_duration :: real
  sr_average_scores :: scores
  sr_frames_processed :: int
  sr_audio_chunks_processed :: int
  sr_message :: string

text \<open>
  A response is a status code and a body; \<open>Detail e\<close> is the body of an
  \<^verbatim>\<open>HTTPException\<close> whose detail is \<^verbatim>\<open>str(e)\<close>.
\<close>

datatype http_body =
    MessageBody string
  | Detail error
  | FrameBody vision_metrics
  | StopBody StopSessionResponse

record http_response =
  status_code :: nat
  content :: http_body

text \<open>
  \<^verbatim>\<open>except ValueError\<close> answers 404, \<^verbatim>\<open>except Exception\<close> answers 500.
\<close>

definition http_exception :: "error \<Rightarrow> http_response" where
  "http_exception e =
     (case e of
        ValueError m \<Rightarrow> \<lparr>status_code = 404, content = Detail e\<rparr>
      | _ \<Rightarrow> \<lparr>status_code = 500, content = Detail e\<rparr>)"

text \<open>\<^verbatim>\<open>POST /sessions/{session_id}/stop\<close>\<close>

definition route_stop_session ::
  "env \<Rightarrow> processor \<Rightarrow> string \<Rightarrow> http_response \<times> processor" where
  "route_stop_session E P sid =
     (case stop_session E P sid of
        (Inl e, P1) \<Rightarrow> (http_exception e, P1)
      | (Inr (NoData i d m), P1) \<Rightarrow> (http_exception (KeyError ''average_scores''), P1)
      | (Inr (Summary su), P1) \<Rightarrow>
          (\<lparr>status_code = 200,
            content = StopBody
              \<lparr>sr_session_id = sid, sr_duration = su_duration su,
               sr_average_scores = su_average_scores su,
               sr_frames_processed = su_frames_processed su,
               sr_audio_chunks_processed = su_audio_chunks_processed su,
               sr_message = ''Session stopped successfully''\<rparr>\<rparr>, P1))"


section \<open>The streaming gateway: \<^verbatim>\<open>websocket_feedback_stream\<close>\<close>

text \<open>
  The \<^verbatim>\<open>data\<close> field of an inbound message, by what
  \<^verbatim>\<open>base64.b64decode(data.get("data"))\<close> does with it: the key is missing or its
  value is not a string (\<^verbatim>\<open>TypeError\<close>), the string has a character outside ASCII
  (\<^verbatim>\<open>ValueError\<close>), the string is one on which the decoder raises
  \<^verbatim>\<open>binascii.Error\<close> (the decoder drops characters outside the base64 alphabet and
  raises on what is left only for incorrect padding), or it decodes to bytes.
\<close>

datatype payload = Absent | NonAscii | Undecodable | Decoded bytes

definition b64decode :: "payload \<Rightarrow> error + bytes" where
  "b64decode d =
     (case d of
        Absent \<Rightarrow> Inl TypeError
      | NonAscii \<Rightarrow> Inl (ValueError ''string argument should contain only ASCII characters'')
      | Undecodable \<Rightarrow> Inl BinasciiError
      | Decoded bs \<Rightarrow> Inr bs)"

text \<open>
  The fields the loop reads from a decoded JSON object. \<open>msg_type\<close> is \<open>None\<close> when the
  key is missing or its value is not a string (such a value equals none of the three
  type names). \<open>msg_timestamp_ms\<close> is the decoded value itself, since the loop tests its
  truth value and subtracts from it. The frame number and the sample rate are handed to
  the analyzers unread.
\<close>

record inbound_message =
  msg_type :: "string option"
  msg_timestamp_ms :: json
  msg_data :: payload
  msg_frame_number :: "int option"
  msg_sample_rate :: "int option"

text \<open>
  What \<^verbatim>\<open>receive_text\<close> followed by \<^verbatim>\<open>json.loads\<close> yields: the transport
  raised \<^verbatim>\<open>WebSocketDisconnect\<close>, the text is not JSON, the text is JSON but not
  an object (\<^verbatim>\<open>data.get\<close> then raises \<^verbatim>\<open>AttributeError\<close>), or a JSON object.
\<close>

datatype inbound = Disconnect | NotJson | NotObject | Message inbound_message

datatype outbound =
    Connected string string
  | Ack json
  | Feedback real scores metrics_excerpt "suggestion list" trends
  | ErrorMessage error

text \<open>The local variables of the receive loop.\<close>

record loop_state =
  latest_audio_metrics :: "audio_metrics option"
  latest_vision_metrics :: "vision_metrics option"
  last_feedback_time :: real

text \<open>The \<^verbatim>\<open>if / elif\<close> chain on the message type.\<close>

definition dispatch ::
  "env \<Rightarrow> processor \<Rightarrow> string \<Rightarrow> loop_state \<Rightarrow> inbound_message
     \<Rightarrow> (error + loop_state) \<times> processor \<times> outbound list" where
  "dispatch E P sid st m =
     (if msg_type m = Some ''heartbeat'' then (Inr st, P, [Ack (msg_timestamp_ms m)])
      else if msg_type m = Some ''frame'' then
        (case b64decode (msg_data m) of
           Inl e \<Rightarrow> (Inl e, P, [])
         | Inr frame_data \<Rightarrow>
             (case process_frame E P sid frame_data (msg_timestamp_ms m) (msg_frame_number m) of
                (Inl e, P1) \<Rightarrow> (Inl e, P1, [])
              | (Inr vision_result, P1) \<Rightarrow>
                  (Inr (if vision_truthy vision_result
                        then st\<lparr>latest_vision_metrics := vision_result\<rparr> else st), P1, [])))
      else if msg_type m = Some ''audio'' then
        (case b64decode (msg_data m) of
           Inl e \<Rightarrow> (Inl e, P, [])
         | Inr audio_data \<Rightarrow>
             (case process_audio E P sid audio_data (msg_timestamp_ms m)
                     (get_default (msg_sample_rate m) 16000) of
                (Inl e, P1) \<Rightarrow> (Inl e, P1, [])
              | (Inr audio_result, P1) \<Rightarrow>
                  (Inr (if audio_truthy audio_result
                        then st\<lparr>latest_audio_metrics := audio_result\<rparr> else st), P1, [])))
      else (Inr st, P, []))"

text \<open>
  The cadence gate that follows the chain on every message.
  \<^verbatim>\<open>current_time = timestamp_ms if timestamp_ms else int(loop.time() * 1000)\<close>; the
  subtraction \<^verbatim>\<open>current_time - last_feedback_time\<close> raises \<^verbatim>\<open>TypeError\<close> when
  \<open>current_time\<close> is not a number. A boolean timestamp is kept as the number it equals.
\<close>

definition current_time :: "env \<Rightarrow> json \<Rightarrow> json" where
  "current_time E timestamp_ms =
     (if py_truth timestamp_ms then timestamp_ms else JNumber (of_int (loop_time_ms E)))"

definition cadence ::
  "env \<Rightarrow> processor \<Rightarrow> string \<Rightarrow> loop_state \<Rightarrow> json
     \<Rightarrow> (error + loop_state) \<times> processor \<times> outbound list" where
  "cadence E P sid st timestamp_ms =
     (case py_number (current_time E timestamp_ms) of
        None \<Rightarrow> (Inl TypeError, P, [])
      | Some now \<Rightarrow>
          if 1000 \<le> now - last_feedback_time st then
            (if audio_truthy (latest_audio_metrics st) \<or> vision_truthy (latest_vision_metrics st)
             then
               (case generate_feedback E P sid (latest_audio_metrics st)
                       (latest_vision_metrics st) (Some now) of
                  (Inl e, P1) \<Rightarrow> (Inl e, P1, [])
                | (Inr fb, P1) \<Rightarrow>
                    (Inr (st\<lparr>last_feedback_time := now\<rparr>), P1,
                     [Feedback (fb_timestamp_ms fb) (fb_scores fb) (fb_metrics fb)
                        (fb_suggestions fb) (fb_trends fb)]))
             else (Inr st, P, []))
          else (Inr st, P, []))"

text \<open>
  The gate fires: the subtraction does not raise, at least 1000 ms have elapsed and some
  latest metrics are present.
\<close>

definition cadence_fires :: "env \<Rightarrow> loop_state \<Rightarrow> json \<Rightarrow> bool" where
  "cadence_fires E st timestamp_ms =
     (case py_number (current_time E timestamp_ms) of
        None \<Rightarrow> False
      | Some now \<Rightarrow>
          1000 \<le> now - last_feedback_time st
          \<and> (audio_truthy (latest_audio_metrics st) \<or> vision_truthy (latest_vision_metrics st)))"

text \<open>One iteration of the loop body.\<close>

definition handle_message ::
  "env \<Rightarrow> processor \<Rightarrow> string \<Rightarrow> loop_state \<Rightarrow> inbound_message
     \<Rightarrow> (error + loop_state) \<times> processor \<times> outbound list" where
  "handle_message E P sid st m =
     (case dispatch E P sid st m of
        (Inl e, P1, out1) \<Rightarrow> (Inl e, P1, out1)
      | (Inr st1, P1, out1) \<Rightarrow>
          (case cadence E P1 sid st1 (msg_timestamp_ms m) of
             (r, P2, out2) \<Rightarrow> (r, P2, out1 @ out2)))"

subsection \<open>\<^verbatim>\<open>ConnectionManager\<close>\<close>

type_synonym websocket = nat
type_synonym manager = "string \<rightharpoonup> websocket list"

definition connect :: "manager \<Rightarrow> string \<Rightarrow> websocket \<Rightarrow> manager" where
  "connect M sid ws = M(sid \<mapsto> (case M sid of None \<Rightarrow> [] | Some l \<Rightarrow> l) @ [ws])"

text \<open>\<^verbatim>\<open>list.remove\<close> raises \<^verbatim>\<open>ValueError\<close> when the element is not in the list.\<close>

definition disconnect :: "manager \<Rightarrow> string \<Rightarrow> websocket \<Rightarrow> error + manager" where
  "disconnect M sid ws =
     (case M sid of
        None \<Rightarrow> Inr M
      | Some l \<Rightarrow>
          if ws \<notin> set l then Inl (ValueError ''list.remove(x): x not in list'')
          else if remove1 ws l = [] then Inr (M(sid := None))
          else Inr (M(sid \<mapsto> remove1 ws l)))"

subsection \<open>The endpoint\<close>

datatype conn_status = Open loop_state | Closed

text \<open>
  The gateway as seen from one websocket: the loop's status, the processor, the
  connection manager and everything sent on this websocket so far. Sending is taken
  to succeed; a broken transport shows as \<open>Disconnect\<close> at the next receive.
\<close>

record stream =
  status :: conn_status
  proc :: processor
  manager :: manager
  sent :: "outbound list"

definition stream_connect :: "processor \<Rightarrow> manager \<Rightarrow> string \<Rightarrow> websocket \<Rightarrow> stream" where
  "stream_connect P M sid ws =
     \<lparr>status = Open \<lparr>latest_audio_metrics = None, latest_vision_metrics = None,
                       last_feedback_time = 0\<rparr>,
      proc = P, manager = connect M sid ws,
      sent = [Connected sid ''WebSocket connection established'']\<rparr>"

definition unregister :: "manager \<Rightarrow> string \<Rightarrow> websocket \<Rightarrow> manager" where
  "unregister M sid ws = (case disconnect M sid ws of Inl e \<Rightarrow> M | Inr M1 \<Rightarrow> M1)"

text \<open>
  One received event. The two \<^verbatim>\<open>except\<close> clauses sit outside the \<^verbatim>\<open>while\<close> loop:
  \<^verbatim>\<open>WebSocketDisconnect\<close> unregisters the websocket, any other exception is sent
  to the client as an error message and then unregisters it as well.
\<close>

definition stream_step :: "string \<Rightarrow> websocket \<Rightarrow> stream \<Rightarrow> env \<times> inbound \<Rightarrow> stream" where
  "stream_step sid ws S ev =
     (case status S of
        Closed \<Rightarrow> S
      | Open st \<Rightarrow>
          (case snd ev of
             Disconnect \<Rightarrow> S\<lparr>status := Closed, manager := unregister (manager S) sid ws\<rparr>
           | NotJson \<Rightarrow>
               S\<lparr>status := Closed, manager := unregister (manager S) sid ws,
                 sent := sent S @ [ErrorMessage JSONDecodeError]\<rparr>
           | NotObject \<Rightarrow>
               S\<lparr>status := Closed, manager := unregister (manager S) sid ws,
                 sent := sent S @ [ErrorMessage AttributeError]\<rparr>
           | Message m \<Rightarrow>
               (case handle_message (fst ev) (proc S) sid st m of
                  (Inl e, P1, out) \<Rightarrow>
                    S\<lparr>status := Closed, proc := P1,
                      manager := unregister (manager S) sid ws,
                      sent := sent S @ out @ [ErrorMessage e]\<rparr>
                | (Inr st1, P1, out) \<Rightarrow>
                    S\<lparr>status := Open st1, proc := P1, sent := sent S @ out\<rparr>)))"

definition stream_run :: "string \<Rightarrow> websocket \<Rightarrow> stream \<Rightarrow> (env \<times> inbound) list \<Rightarrow> stream" where
  "stream_run sid ws S evs = foldl (stream_step sid ws) S evs"

definition is_open :: "stream \<Rightarrow> bool" where
  "is_open S = (case status S of Open st \<Rightarrow> True | Closed \<Rightarrow> False)"

section \<open>Operation sequences\<close>

text \<open>The processor's public operations, each with what the environment answers.\<close>

datatype operation =
    StartSession string string string
  | StopSession string
  | ProcessFrame string bytes json "int option"
  | ProcessAudio string bytes json int
  | GenerateFeedback string "audio_metrics option" "vision_metrics option" "real option"

fun apply_operation :: "processor \<Rightarrow> env \<times> operation \<Rightarrow> processor" where
  "apply_operation P (E, StartSession sid uid stype) = snd (start_session E P sid uid stype)"
| "apply_operation P (E, StopSession sid) = snd (stop_session E P sid)"
| "apply_operation P (E, ProcessFrame sid d ts n) = snd (process_frame E P sid d ts n)"
| "apply_operation P (E, ProcessAudio sid d ts rate) = snd (process_audio E P sid d ts rate)"
| "apply_operation P (E, GenerateFeedback sid a v ts) = snd (generate_feedback E P sid a v ts)"

fun run_operations :: "processor \<Rightarrow> (env \<times> operation) list \<Rightarrow> processor" where
  "run_operations P [] = P"
| "run_operations P (x # xs) = run_operations (apply_operation P x) xs"

text \<open>A run of feedback cycles on one session, and the history entry each cycle records.\<close>

type_synonym feedback_call = "env \<times> audio_metrics option \<times> vision_metrics option \<times> real option"

definition feedback_cycles :: "processor \<Rightarrow> string \<Rightarrow> feedback_call list \<Rightarrow> processor" where
  "feedback_cycles P sid calls =
     run_operations P (map (\<lambda>(E, a, v, ts). (E, GenerateFeedback sid a v ts)) calls)"

definition recorded_entry :: "feedback_call \<Rightarrow> hist_entry" where
  "recorded_entry c =
     (case c of (E, a, v, ts) \<Rightarrow>
        \<lparr>h_timestamp_ms = (case ts of None \<Rightarrow> of_int (py_int (clock E * 1000)) | Some t \<Rightarrow> t),
         h_scores = calculate_scores a v (None :: baseline_dict option)\<rparr>)"

text \<open>
  Scenario A: start session \<open>s1\<close>, ingest one audio chunk, then generate feedback from
  the returned audio metrics and no video metrics.
\<close>

definition scenario_A :: "env \<Rightarrow> processor \<Rightarrow> bytes \<Rightarrow> error + scores" where
  "scenario_A E P audio_data =
     (case start_session E P ''s1'' ''u1'' ''practice'' of
        (Inl e, P1) \<Rightarrow> Inl e
      | (Inr s, P1) \<Rightarrow>
          (case process_audio E P1 ''s1'' audio_data (JNumber 0) 16000 of
             (Inl e, P2) \<Rightarrow> Inl e
           | (Inr audio, P2) \<Rightarrow>
               (case generate_feedback E P2 ''s1'' audio None (Some 1000) of
                  (Inl e, P3) \<Rightarrow> Inl e
                | (Inr fb, P3) \<Rightarrow> Inr (fb_scores fb))))"

section \<open>The specification's words\<close>


definition spec_mean :: "real list \<Rightarrow> real" where
  "spec_mean xs = sum_list xs / real (length xs)"


section \<open>Invariants\<close>

text \<open>Every session of the store holds at most 50 history entries.\<close>

definition hist_bounded :: "processor \<Rightarrow> bool" where
  "hist_bounded P = (\<forall>sid s. sessions P sid = Some s \<longrightarrow> length (score_history s) \<le> 50)"

section \<open>Example inputs\<close>

text \<open>\<^verbatim>\<open>FeedbackProcessor.__init__\<close>; \<open>has_redis\<close> stands for \<^verbatim>\<open>HAS_REDIS and redis_url\<close>.\<close>

definition new_processor :: "bool \<Rightarrow> bool \<Rightarrow> bool \<Rightarrow> int \<Rightarrow> processor" where
  "new_processor audio_on vision_on has_redis sample_rate =
     \<lparr>enable_audio = audio_on, enable_vision = vision_on, frame_sample_rate = sample_rate,
      frame_counter = 0, redis_client = has_redis, sessions = Map.empty\<rparr>"

definition ex_audio_result :: AudioAnalysisResult where
  "ex_audio_result =
     \<lparr>ar_tone = \<lparr>tm_pitch_variance = 10, tm_pitch_range = (100, 220)\<rparr>,
      ar_emotion = \<lparr>em_stress_level = 30\<rparr>,
      ar_speech = \<lparr>sm_filler_words = [2, 1], sm_articulation_score = 80,
                    sm_speaking_rate = 190\<rparr>\<rparr>"

definition ex_vision_result :: VisionAnalysisResult where
  "ex_vision_result =
     \<lparr>vr_facial = \<lparr>fm_eye_contact = 60, fm_smile_genuineness = 0.5\<rparr>,
      vr_body = \<lparr>bm_posture = ''open'', bm_energy_level = 40\<rparr>,
      vr_professional = \<lparr>pm_overall_polish = 75\<rparr>,
      vr_frame_number = 0, vr_timestamp_ms = JNull\<rparr>"

text \<open>Collaborators that answer, and collaborators whose analyzers raise.\<close>

definition ex_env :: env where
  "ex_env =
     \<lparr>cv2_imdecode = (\<lambda>bs. if bs = [] then None else Some bs),
      vision_analyze =
        (\<lambda>img n ts. Inr (ex_vision_result\<lparr>vr_frame_number := n, vr_timestamp_ms := ts\<rparr>)),
      audio_analyze = (\<lambda>arr ts rate. Inr ex_audio_result),
      redis_ok = True, clock = 100, loop_time_ms = 7000, float_tie_up = (\<lambda>x. False)\<rparr>"

definition ex_env_raising :: env where
  "ex_env_raising =
     ex_env\<lparr>vision_analyze := (\<lambda>img n ts. Inl (CollaboratorError ''vision'')),
            audio_analyze := (\<lambda>arr ts rate. Inl (CollaboratorError ''audio''))\<rparr>"

text \<open>A processor configured as the routes do, without Redis, and one started session.\<close>

definition ex_processor :: processor where
  "ex_processor = snd (start_session ex_env (new_processor True True False 3) ''s1'' ''u1'' ''practice'')"

definition ex_stream :: stream where
  "ex_stream = stream_connect ex_processor Map.empty ''s1'' 1"

text \<open>A score set with a chosen confidence, and a session that recorded five of them.\<close>

definition ex_scores :: "real \<Rightarrow> scores" where
  "ex_scores c =
     \<lparr>confidence = c, engagement = 70, clarity = 70, authenticity = 70,
      professionalPresence = 70\<rparr>"

definition ex_entry :: "real \<Rightarrow> hist_entry" where
  "ex_entry c = \<lparr>h_timestamp_ms = 0, h_scores = ex_scores c\<rparr>"

definition ex_session :: "hist_entry list \<Rightarrow> session" where
  "ex_session h =
     \<lparr>session_id = ''s1'', user_id = ''u1'', session_type = ''practice'', start_time = 100,
      frame_count = 4, audio_chunk_count = 9, baseline = None, score_history = h,
      end_time = None, duration = None\<rparr>"

definition ex_processor_with :: "hist_entry list \<Rightarrow> processor" where
  "ex_processor_with h =
     (new_processor True True False 3)\<lparr>sessions := [''s1'' \<mapsto> ex_session h]\<rparr>"

text \<open>Sixty feedback calls with the timestamps 0 to 59 and no metrics.\<close>

definition ex_calls :: "feedback_call list" where
  "ex_calls = map (\<lambda>i. (ex_env, None, None, Some (real i))) [0..<60]"

text \<open>An inbound message of a given type, timestamp and data field.\<close>

definition ex_msg :: "string \<Rightarrow> json \<Rightarrow> payload \<Rightarrow> inbound_message" where
  "ex_msg t ts d =
     \<lparr>msg_type = Some t, msg_timestamp_ms = ts, msg_data = d, msg_frame_number = None,
      msg_sample_rate = None\<rparr>"

text \<open>The example stream after one audio message at timestamp 10.\<close>

definition ex_stream_audio :: stream where
  "ex_stream_audio =
     stream_step ''s1'' 1 ex_stream
       (ex_env, Message (ex_msg ''audio'' (JNumber 10) (Decoded [0, 0, 0, 0])))"



section \<open>Theorems\<close>

lemma py_sum_simps [simp]:
  "py_sum [] = 0" "py_sum [a] = a" "py_sum [a, b] = a + b" "py_sum [a, b, c] = a + b + c"
  by (simp_all add: py_sum_def)

text \<open>
  C5. When the audio metrics carry a tone entry with a pitch variance and the vision
  metrics carry a facial entry with an eye-contact value and a body entry with a
  posture, the confidence score is
  \<open>0.4 * max 0 (100 - 2 * pitch_variance) + 0.3 * eye_contact + 0.3 * posture_score\<close>
  clamped to the interval from 0 to 100, where the posture score is 90 for "open",
  70 for "neutral" and 50 for anything else.
\<close>

theorem confidence_fusion_formula:
  assumes "audio = Some a" and "tone a = Some t" and "pitch_variance t = Some pv"
    and "vision = Some v" and "facial v = Some f" and "eye_contact f = Some ec"
    and "body v = Some b" and "posture b = Some p"
  shows "confidence (calculate_scores audio vision bl) =
           max 0 (min 100
             (0.4 * max 0 (100 - 2 * pv) + 0.3 * ec
              + 0.3 * (if p = ''open'' then 90 else if p = ''neutral'' then 70 else 50)))"
  using assms
  by (simp add: calculate_scores_def confidence_components_def sub_dict_def get_default_def
      clamp_score_def Let_def mult.commute)

theorem confidence_fusion_formula_witness:
  "confidence (calculate_scores (Some (audio_to_dict ex_audio_result))
       (Some (vision_to_dict ex_vision_result)) (None :: baseline_dict option)) = 77"
  using confidence_fusion_formula
    [of "Some (audio_to_dict ex_audio_result)" "audio_to_dict ex_audio_result"
        "\<lparr>pitch_variance = Some 10, pitch_range = Some (100, 220)\<rparr>" 10
        "Some (vision_to_dict ex_vision_result)" "vision_to_dict ex_vision_result"
        "\<lparr>eye_contact = Some 60, smile_genuineness = Some 0.5\<rparr>" 60
        "\<lparr>posture = Some ''open'', energy_level = Some 40\<rparr>" "''open''"
        "None :: baseline_dict option"]
  by (simp add: audio_to_dict_def vision_to_dict_def ex_audio_result_def ex_vision_result_def)

text \<open>
  C1 (as amended). For a session id that is not in the store: \<open>generate_feedback\<close> fails
  with the not-found error and changes nothing; \<open>process_audio\<close> does the same when audio
  is enabled, and returns \<open>None\<close> without a lookup when audio is disabled;
  \<open>process_frame\<close> returns \<open>None\<close> without a lookup when vision is disabled, and otherwise
  (sample rate not 0) first advances the process-wide frame counter, returns \<open>None\<close> for
  a frame the sampling gate rejects and fails with the not-found error only for a frame
  the gate accepts.
\<close>

theorem absent_session_operations:
  assumes "sessions P sid = None"
  shows "generate_feedback E P sid audio vision ts = (Inl (session_not_found sid), P)
    \<and> (enable_audio P \<longrightarrow>
          process_audio E P sid audio_data ats rate = (Inl (session_not_found sid), P))
    \<and> (\<not> enable_audio P \<longrightarrow> process_audio E P sid audio_data ats rate = (Inr None, P))
    \<and> (enable_vision P \<and> frame_sample_rate P \<noteq> 0 \<longrightarrow>
          process_frame E P sid frame_data fts fn =
            (if (frame_counter P + 1) mod frame_sample_rate P = 0
             then Inl (session_not_found sid) else Inr None,
             P\<lparr>frame_counter := frame_counter P + 1\<rparr>))
    \<and> (\<not> enable_vision P \<longrightarrow> process_frame E P sid frame_data fts fn = (Inr None, P))"
  using assms
  by (simp add: generate_feedback_def process_audio_def process_frame_def Let_def)

theorem absent_session_operations_witness:
  "generate_feedback ex_env (new_processor True True False 3) ''ghost'' None None (Some 5)
      = (Inl (session_not_found ''ghost''), new_processor True True False 3)
   \<and> process_audio ex_env (new_processor True True False 3) ''ghost'' [] (JNumber 5) 16000
      = (Inl (session_not_found ''ghost''), new_processor True True False 3)
   \<and> process_audio ex_env (new_processor False True False 3) ''ghost'' [] (JNumber 5) 16000
      = (Inr None, new_processor False True False 3)
   \<and> process_frame ex_env ((new_processor True True False 3)\<lparr>frame_counter := 2\<rparr>)
        ''ghost'' [7] (JNumber 5) None
      = (Inl (session_not_found ''ghost''),
         (new_processor True True False 3)\<lparr>frame_counter := 3\<rparr>)
   \<and> process_frame ex_env (new_processor True False False 3) ''ghost'' [7] (JNumber 5) None
      = (Inr None, new_processor True False False 3)"
  using
    absent_session_operations
      [of "new_processor True True False 3" "''ghost''" ex_env None None "Some 5" "[]"
          "JNumber 5" 16000]
    absent_session_operations
      [of "new_processor False True False 3" "''ghost''" ex_env None None "Some 5" "[]"
          "JNumber 5" 16000]
    absent_session_operations
      [of "(new_processor True True False 3)\<lparr>frame_counter := 2\<rparr>" "''ghost''" ex_env
          None None "Some 5" "[]" "JNumber 5" 16000 "[7]" "JNumber 5" None]
    absent_session_operations
      [of "new_processor True False False 3" "''ghost''" ex_env
          None None "Some 5" "[]" "JNumber 5" 16000 "[7]" "JNumber 5" None]
  by (simp add: new_processor_def)

text \<open>
  The first frame sent for an unknown session id is rejected by the sampling gate and
  returns \<open>None\<close>, not the not-found error.
\<close>

theorem absent_session_frame_counterexample:
  "sessions (new_processor True True False 3) ''ghost'' = None
   \<and> fst (process_frame ex_env (new_processor True True False 3) ''ghost'' [7] (JNumber 5) None)
       = Inr None"
  by (simp add: new_processor_def process_frame_def Let_def)

subsection \<open>Trends\<close>

lemma foldl_add_sum_list: "foldl (+) a xs = (a::real) + sum_list xs"
  by (induction xs arbitrary: a) simp_all

lemma py_sum_eq_sum_list: "py_sum xs = sum_list (xs :: real list)"
  by (simp add: py_sum_def foldl_add_sum_list)






subsection \<open>The history cap\<close>

lemma length_append_history: "length h \<le> 50 \<Longrightarrow> length (append_history h e) \<le> 50"
  by (simp add: append_history_def py_tail_def Let_def)

lemma append_history_eq: "append_history h e = py_tail 50 (h @ [e])"
  by (simp add: append_history_def py_tail_def Let_def)

lemma py_tail_py_tail_append: "py_tail n (py_tail n xs @ ys) = py_tail n (xs @ ys)"
  by (cases "n \<le> length xs") (simp_all add: py_tail_def add.commute)

lemma hist_bounded_apply: "hist_bounded P \<Longrightarrow> hist_bounded (apply_operation P x)"
proof (cases x)
  case (Pair E op)
  assume inv: "hist_bounded P"
  show ?thesis
  proof (cases op)
    case (StartSession sid uid stype)
    with Pair inv show ?thesis
      by (auto simp: hist_bounded_def start_session_def Let_def)
  next
    case (StopSession sid)
    with Pair inv show ?thesis
      by (auto simp: hist_bounded_def stop_session_def Let_def split: option.splits if_splits)
  next
    case (ProcessFrame sid d ts n)
    with Pair inv show ?thesis
      by (auto simp: hist_bounded_def process_frame_def Let_def
          split: option.splits if_splits sum.splits)
  next
    case (ProcessAudio sid d ts rate)
    with Pair inv show ?thesis
      by (auto simp: hist_bounded_def process_audio_def Let_def
          split: option.splits if_splits sum.splits)
  next
    case (GenerateFeedback sid a v ts)
    with Pair inv show ?thesis
      by (auto simp: hist_bounded_def generate_feedback_def Let_def length_append_history
          split: option.splits if_splits)
  qed
qed

lemma hist_bounded_run: "hist_bounded P \<Longrightarrow> hist_bounded (run_operations P ops)"
  by (induction ops arbitrary: P) (simp_all add: hist_bounded_apply)

lemma hist_bounded_new: "hist_bounded (new_processor a v r n)"
  by (simp add: hist_bounded_def new_processor_def)

lemma feedback_cycles_Cons:
  "feedback_cycles P sid ((E, a, v, ts) # cs) =
     feedback_cycles (snd (generate_feedback E P sid a v ts)) sid cs"
  by (simp add: feedback_cycles_def)

lemma generate_feedback_session:
  "sessions P sid = Some s \<Longrightarrow>
   sessions (snd (generate_feedback E P sid a v ts)) sid =
     Some (s\<lparr>score_history := append_history (score_history s) (recorded_entry (E, a, v, ts))\<rparr>)"
  by (simp add: generate_feedback_def Let_def recorded_entry_def calculate_scores_def)

text \<open>
  After any run of feedback cycles the history is the last 50 entries of the old
  history followed by the entries the cycles recorded.
\<close>

lemma feedback_cycles_history:
  "sessions P sid = Some s \<Longrightarrow> length (score_history s) \<le> 50 \<Longrightarrow>
   \<exists>s'. sessions (feedback_cycles P sid calls) sid = Some s'
      \<and> score_history s' = py_tail 50 (score_history s @ map recorded_entry calls)"
proof (induction calls arbitrary: P s)
  case Nil
  then show ?case by (simp add: feedback_cycles_def py_tail_def)
next
  case (Cons c cs)
  obtain E a v ts where c: "c = (E, a, v, ts)" by (cases c) auto
  let ?s1 = "s\<lparr>score_history := append_history (score_history s) (recorded_entry c)\<rparr>"
  have s1: "sessions (snd (generate_feedback E P sid a v ts)) sid = Some ?s1"
    using Cons.prems(1) c by (simp add: generate_feedback_session)
  have len: "length (score_history ?s1) \<le> 50"
    using Cons.prems(2) by (simp add: length_append_history)
  from Cons.IH [OF s1 len] obtain s' where
    s': "sessions (feedback_cycles (snd (generate_feedback E P sid a v ts)) sid cs) sid = Some s'"
    and h: "score_history s' = py_tail 50 (score_history ?s1 @ map recorded_entry cs)"
    by blast
  have "score_history s' = py_tail 50 (score_history s @ map recorded_entry (c # cs))"
    using h by (simp add: append_history_eq py_tail_py_tail_append)
  with s' c show ?case by (simp add: feedback_cycles_Cons)
qed

text \<open>
  C7. In every state the processor reaches from its construction by any sequence of
  its operations, every session's score history has at most 50 entries. After 60
  feedback cycles on a session whose history was empty, the history has exactly 50
  entries: the entries of the last 50 cycles, in the order they were recorded.
\<close>

theorem history_cap:
  "(sessions (run_operations (new_processor audio_on vision_on has_redis rate) ops) sid = Some s
      \<longrightarrow> length (score_history s) \<le> 50)
   \<and> (sessions P sid' = Some s0 \<and> score_history s0 = [] \<and> length calls = 60 \<longrightarrow>
        (\<exists>s'. sessions (feedback_cycles P sid' calls) sid' = Some s'
           \<and> length (score_history s') = 50
           \<and> score_history s' = drop 10 (map recorded_entry calls)))"
proof (intro conjI impI)
  assume "sessions (run_operations (new_processor audio_on vision_on has_redis rate) ops) sid
            = Some s"
  moreover have "hist_bounded (run_operations (new_processor audio_on vision_on has_redis rate) ops)"
    by (rule hist_bounded_run [OF hist_bounded_new])
  ultimately show "length (score_history s) \<le> 50"
    by (simp add: hist_bounded_def)
next
  assume a: "sessions P sid' = Some s0 \<and> score_history s0 = [] \<and> length calls = 60"
  with feedback_cycles_history [of P sid' s0 calls] obtain s' where
    "sessions (feedback_cycles P sid' calls) sid' = Some s'"
    and "score_history s' = py_tail 50 (map recorded_entry calls)"
    by auto
  with a show "\<exists>s'. sessions (feedback_cycles P sid' calls) sid' = Some s'
           \<and> length (score_history s') = 50
           \<and> score_history s' = drop 10 (map recorded_entry calls)"
    by (simp add: py_tail_def)
qed

theorem history_cap_witness:
  "sessions (run_operations (new_processor True True False 3)
       [(ex_env, StartSession ''s1'' ''u1'' ''practice'')]) ''s1''
     = Some ((ex_session [])\<lparr>frame_count := 0, audio_chunk_count := 0\<rparr>)
   \<and> length (score_history ((ex_session [])\<lparr>frame_count := 0, audio_chunk_count := 0\<rparr>)) \<le> 50
   \<and> sessions (ex_processor_with []) ''s1'' = Some (ex_session [])
   \<and> length ex_calls = 60
   \<and> (\<exists>s'. sessions (feedback_cycles (ex_processor_with []) ''s1'' ex_calls) ''s1'' = Some s'
         \<and> length (score_history s') = 50
         \<and> score_history s' = drop 10 (map recorded_entry ex_calls))"
proof -
  have s: "sessions (run_operations (new_processor True True False 3)
       [(ex_env, StartSession ''s1'' ''u1'' ''practice'')]) ''s1''
     = Some ((ex_session [])\<lparr>frame_count := 0, audio_chunk_count := 0\<rparr>)"
    by (simp add: start_session_def new_processor_def ex_env_def ex_session_def
        load_user_baseline_def redis_raises_def Let_def)
  have p: "sessions (ex_processor_with []) ''s1'' = Some (ex_session [])"
    by (simp add: ex_processor_with_def)
  have e: "score_history (ex_session []) = []"
    by (simp add: ex_session_def)
  have l: "length ex_calls = 60"
    by (simp add: ex_calls_def)
  note h = history_cap
    [of True True False 3 "[(ex_env, StartSession ''s1'' ''u1'' ''practice'')]" "''s1''"
        "(ex_session [])\<lparr>frame_count := 0, audio_chunk_count := 0\<rparr>"
        "ex_processor_with []" "''s1''" "ex_session []" ex_calls]
  from h s
  have "length (score_history ((ex_session [])\<lparr>frame_count := 0, audio_chunk_count := 0\<rparr>)) \<le> 50"
    by blast
  moreover from h p e l have
    "\<exists>s'. sessions (feedback_cycles (ex_processor_with []) ''s1'' ex_calls) ''s1'' = Some s'
         \<and> length (score_history s') = 50
         \<and> score_history s' = drop 10 (map recorded_entry ex_calls)"
    by blast
  ultimately show ?thesis using s p l by blast
qed

subsection \<open>Stopping a session\<close>

text \<open>
  C8 (as amended). Stopping an unknown session id fails with the not-found error and
  changes nothing. Stopping a session of the store removes it. When Redis does not
  raise, the summary of a session with at least one recorded score set has the
  session id, the duration (stop time minus start time), the mean of each of the five
  scores over every recorded score set, and the two counters; the summary of a session
  with no recorded score set has only the session id, the duration and the message
  "No data collected".
\<close>

theorem stop_session_summary:
  "(sessions P sid = None \<longrightarrow> stop_session E P sid = (Inl (session_not_found sid), P))
   \<and> (sessions P sid = Some s \<longrightarrow>
        snd (stop_session E P sid) = P\<lparr>sessions := (sessions P)(sid := None)\<rparr>
        \<and> (\<not> redis_raises E P \<and> score_history s = [] \<longrightarrow>
             fst (stop_session E P sid) =
               Inr (NoData (session_id s) (clock E - start_time s) ''No data collected''))
        \<and> (\<not> redis_raises E P \<and> score_history s \<noteq> [] \<longrightarrow>
             (\<exists>su. fst (stop_session E P sid) = Inr (Summary su)
                \<and> su_session_id su = session_id s
                \<and> su_duration su = clock E - start_time s
                \<and> su_average_scores su =
                    \<lparr>confidence = spec_mean (map (\<lambda>h. confidence (h_scores h)) (score_history s)),
                     engagement = spec_mean (map (\<lambda>h. engagement (h_scores h)) (score_history s)),
                     clarity = spec_mean (map (\<lambda>h. clarity (h_scores h)) (score_history s)),
                     authenticity =
                       spec_mean (map (\<lambda>h. authenticity (h_scores h)) (score_history s)),
                     professionalPresence =
                       spec_mean (map (\<lambda>h. professionalPresence (h_scores h)) (score_history s))\<rparr>
                \<and> su_frames_processed su = frame_count s
                \<and> su_audio_chunks_processed su = audio_chunk_count s)))"
  by (cases "score_history s")
    (simp_all add: stop_session_def calculate_session_summary_def Let_def redis_raises_def
      get_default_def py_sum_eq_sum_list spec_mean_def)

theorem stop_session_summary_witness:
  "stop_session ex_env (ex_processor_with []) ''ghost''
     = (Inl (session_not_found ''ghost''), ex_processor_with [])
   \<and> sessions (snd (stop_session ex_env (ex_processor_with []) ''s1'')) ''s1'' = None
   \<and> fst (stop_session ex_env (ex_processor_with []) ''s1'')
     = Inr (NoData ''s1'' 0 ''No data collected'')
   \<and> (\<exists>su. fst (stop_session ex_env (ex_processor_with [ex_entry 80, ex_entry 90]) ''s1'')
              = Inr (Summary su)
         \<and> su_session_id su = ''s1'' \<and> su_duration su = 0
         \<and> su_average_scores su =
              \<lparr>confidence = 85, engagement = 70, clarity = 70, authenticity = 70,
               professionalPresence = 70\<rparr>
         \<and> su_frames_processed su = 4 \<and> su_audio_chunks_processed su = 9)"
  using
    stop_session_summary [of "ex_processor_with []" "''ghost''" ex_env "ex_session []"]
    stop_session_summary [of "ex_processor_with []" "''s1''" ex_env "ex_session []"]
    stop_session_summary
      [of "ex_processor_with [ex_entry 80, ex_entry 90]" "''s1''" ex_env
          "ex_session [ex_entry 80, ex_entry 90]"]
  by (simp add: ex_processor_with_def new_processor_def ex_session_def ex_entry_def
      ex_scores_def ex_env_def redis_raises_def spec_mean_def)

text \<open>
  A session that is started and stopped at once has no recorded score set: its summary
  carries no average scores and no counters.
\<close>

theorem stop_without_feedback_counterexample:
  "fst (stop_session ex_env ex_processor ''s1'') = Inr (NoData ''s1'' 0 ''No data collected'')"
  by (simp add: ex_processor_def start_session_def stop_session_def new_processor_def
      calculate_session_summary_def Let_def redis_raises_def get_default_def ex_env_def
      load_user_baseline_def)

text \<open>The stop route answers 500 for that summary, as it reads the missing key.\<close>

lemma route_stop_without_feedback:
  "status_code (fst (route_stop_session ex_env ex_processor ''s1'')) = 500"
  by (simp add: route_stop_session_def http_exception_def ex_processor_def start_session_def
      stop_session_def new_processor_def calculate_session_summary_def Let_def
      redis_raises_def get_default_def ex_env_def load_user_baseline_def)

subsection \<open>Scenario A\<close>

text \<open>
  C10 (as amended). After starting a session and ingesting one audio chunk whose metrics
  yield a speaking rate of 190, feedback generated from those audio metrics and no
  video metrics has authenticity and professional presence exactly 70, and clarity
  \<open>0.5 * articulation + 10\<close> (clamped), which is below 70 for an articulation score of
  at most 100. Confidence and engagement are not 70: the audio metrics always carry the
  tone entry, so confidence is \<open>0.4 * max 0 (100 - 2 * pitch_variance)\<close> and engagement
  is \<open>0.5 * min ((pitch_max - pitch_min) / 3) 100\<close> (both clamped); engagement is at
  most 50, and confidence at most 40 when the pitch variance is not negative.
\<close>

theorem scenario_A_scores:
  "audio_analyze E bs (JNumber 0) 16000 = Inr r \<and> sm_speaking_rate (ar_speech r) = 190
     \<and> enable_audio P \<and> length bs mod 4 = 0 \<and> \<not> redis_raises E P \<longrightarrow>
   (\<exists>sc. scenario_A E P bs = Inr sc
      \<and> clarity sc = clamp_score (0.5 * sm_articulation_score (ar_speech r) + 10)
      \<and> (sm_articulation_score (ar_speech r) \<le> 100 \<longrightarrow> clarity sc < 70)
      \<and> authenticity sc = 70
      \<and> professionalPresence sc = 70
      \<and> confidence sc = clamp_score (0.4 * max 0 (100 - 2 * tm_pitch_variance (ar_tone r)))
      \<and> (0 \<le> tm_pitch_variance (ar_tone r) \<longrightarrow> confidence sc \<le> 40)
      \<and> engagement sc =
          clamp_score (0.5 * min ((snd (tm_pitch_range (ar_tone r))
                                   - fst (tm_pitch_range (ar_tone r))) / 3) 100)
      \<and> engagement sc \<le> 50)"
  by (auto simp add: scenario_A_def start_session_def process_audio_def generate_feedback_def
      audio_to_dict_def Let_def audio_truthy_def
      redis_raises_def load_user_baseline_def np_frombuffer_float32_def calculate_scores_def
      confidence_components_def engagement_components_def clarity_components_def
      sub_dict_def get_default_def clamp_score_def mult.commute)

theorem scenario_A_scores_witness:
  "audio_analyze ex_env [0, 0, 0, 0] (JNumber 0) 16000 = Inr ex_audio_result
   \<and> sm_speaking_rate (ar_speech ex_audio_result) = 190
   \<and> (\<exists>sc. scenario_A ex_env (new_processor True True False 3) [0, 0, 0, 0] = Inr sc
         \<and> clarity sc < 70 \<and> authenticity sc = 70 \<and> professionalPresence sc = 70
         \<and> confidence sc \<le> 40 \<and> engagement sc \<le> 50)"
proof -
  have h: "audio_analyze ex_env [0, 0, 0, 0] (JNumber 0) 16000 = Inr ex_audio_result
      \<and> sm_speaking_rate (ar_speech ex_audio_result) = 190
      \<and> enable_audio (new_processor True True False 3) \<and> length [0, 0, 0, 0 :: nat] mod 4 = 0
      \<and> \<not> redis_raises ex_env (new_processor True True False 3)"
    by (simp add: ex_env_def ex_audio_result_def new_processor_def redis_raises_def)
  have a: "sm_articulation_score (ar_speech ex_audio_result) \<le> 100"
    and v: "0 \<le> tm_pitch_variance (ar_tone ex_audio_result)"
    by (simp_all add: ex_audio_result_def)
  from scenario_A_scores
    [of ex_env "[0, 0, 0, 0]" ex_audio_result "new_processor True True False 3"] h a v
  obtain sc where "scenario_A ex_env (new_processor True True False 3) [0, 0, 0, 0] = Inr sc"
    and "clarity sc < 70" and "authenticity sc = 70" and "professionalPresence sc = 70"
    and "confidence sc \<le> 40" and "engagement sc \<le> 50"
    by blast
  with h show ?thesis by blast
qed

text \<open>
  With a pitch variance of 10 and a pitch range from 100 to 220, confidence is 32 and
  engagement is 20.
\<close>

theorem scenario_A_counterexample:
  "sm_speaking_rate (ar_speech ex_audio_result) = 190
   \<and> scenario_A ex_env (new_processor True True False 3) [0, 0, 0, 0] =
       Inr \<lparr>confidence = 32, engagement = 20, clarity = 50, authenticity = 70,
            professionalPresence = 70\<rparr>"
  by (simp add: scenario_A_def start_session_def process_audio_def generate_feedback_def
      new_processor_def ex_env_def ex_audio_result_def audio_to_dict_def Let_def
      redis_raises_def load_user_baseline_def np_frombuffer_float32_def calculate_scores_def
      confidence_components_def engagement_components_def clarity_components_def
      sub_dict_def get_default_def clamp_score_def)

subsection \<open>The streaming gateway\<close>


lemma dispatch_heartbeat:
  "msg_type m = Some ''heartbeat'' \<Longrightarrow>
   dispatch E P sid st m = (Inr st, P, [Ack (msg_timestamp_ms m)])"
  unfolding dispatch_def by simp

lemma dispatch_frame:
  "msg_type m = Some ''frame'' \<Longrightarrow>
   dispatch E P sid st m =
     (case b64decode (msg_data m) of
        Inl e \<Rightarrow> (Inl e, P, [])
      | Inr frame_data \<Rightarrow>
          (case process_frame E P sid frame_data (msg_timestamp_ms m) (msg_frame_number m) of
             (Inl e, P1) \<Rightarrow> (Inl e, P1, [])
           | (Inr vision_result, P1) \<Rightarrow>
               (Inr (if vision_truthy vision_result
                     then st\<lparr>latest_vision_metrics := vision_result\<rparr> else st), P1, [])))"
  unfolding dispatch_def by simp

lemma dispatch_audio:
  "msg_type m = Some ''audio'' \<Longrightarrow>
   dispatch E P sid st m =
     (case b64decode (msg_data m) of
        Inl e \<Rightarrow> (Inl e, P, [])
      | Inr audio_data \<Rightarrow>
          (case process_audio E P sid audio_data (msg_timestamp_ms m)
                  (get_default (msg_sample_rate m) 16000) of
             (Inl e, P1) \<Rightarrow> (Inl e, P1, [])
           | (Inr audio_result, P1) \<Rightarrow>
               (Inr (if audio_truthy audio_result
                     then st\<lparr>latest_audio_metrics := audio_result\<rparr> else st), P1, [])))"
  unfolding dispatch_def by simp

lemma cadence_type_error:
  "py_number (current_time E ts) = None \<Longrightarrow> cadence E P sid st ts = (Inl TypeError, P, [])"
  by (simp add: cadence_def)

lemma cadence_idle:
  "py_number (current_time E ts) \<noteq> None \<Longrightarrow> \<not> cadence_fires E st ts \<Longrightarrow>
   cadence E P sid st ts = (Inr st, P, [])"
  by (auto simp: cadence_def cadence_fires_def)

lemma handle_message_error:
  "dispatch E P sid st m = (Inl e, P1, out1) \<Longrightarrow> handle_message E P sid st m = (Inl e, P1, out1)"
  by (simp add: handle_message_def)

lemma handle_message_cadence:
  "dispatch E P sid st m = (Inr st1, P1, out1) \<Longrightarrow>
   handle_message E P sid st m =
     (case cadence E P1 sid st1 (msg_timestamp_ms m) of (r, P2, out2) \<Rightarrow> (r, P2, out1 @ out2))"
  by (simp add: handle_message_def)

lemma stream_step_error:
  "status S = Open st \<Longrightarrow> handle_message E (proc S) sid st m = (Inl e, P1, out) \<Longrightarrow>
   stream_step sid ws S (E, Message m) =
     S\<lparr>status := Closed, proc := P1, manager := unregister (manager S) sid ws,
       sent := sent S @ out @ [ErrorMessage e]\<rparr>"
  by (simp add: stream_step_def)

lemma stream_step_continue:
  "status S = Open st \<Longrightarrow> handle_message E (proc S) sid st m = (Inr st1, P1, out) \<Longrightarrow>
   stream_step sid ws S (E, Message m) = S\<lparr>status := Open st1, proc := P1, sent := sent S @ out\<rparr>"
  by (simp add: stream_step_def)












lemma ex_stream_simps:
  "status ex_stream =
     Open \<lparr>latest_audio_metrics = None, latest_vision_metrics = None, last_feedback_time = 0\<rparr>"
  "proc ex_stream = ex_processor"
  "sent ex_stream = [Connected ''s1'' ''WebSocket connection established'']"
  by (simp_all add: ex_stream_def stream_connect_def)

lemma ex_processor_simps:
  "enable_audio ex_processor" "enable_vision ex_processor" "frame_sample_rate ex_processor = 3"
  "frame_counter ex_processor = 0" "\<not> redis_client ex_processor"
  "sessions ex_processor ''s1'' = Some ((ex_session [])\<lparr>frame_count := 0, audio_chunk_count := 0\<rparr>)"
  "sessions ex_processor ''ghost'' = None"
  by (simp_all add: ex_processor_def start_session_def new_processor_def Let_def
      redis_raises_def ex_env_def ex_session_def load_user_baseline_def)

lemma ex_stream_audio_simps:
  "status ex_stream_audio =
     Open \<lparr>latest_audio_metrics = Some (audio_to_dict ex_audio_result),
           latest_vision_metrics = None, last_feedback_time = 0\<rparr>"
  "sessions (proc ex_stream_audio) ''s1'' =
     Some ((ex_session [])\<lparr>frame_count := 0, audio_chunk_count := 1\<rparr>)"
  "\<not> redis_client (proc ex_stream_audio)"
  by (simp_all add: ex_stream_audio_def stream_step_def ex_stream_simps handle_message_def
      dispatch_def ex_msg_def b64decode_def process_audio_def ex_processor_simps
      np_frombuffer_float32_def ex_env_def redis_raises_def Let_def audio_truthy_def
      audio_to_dict_def cadence_def current_time_def get_default_def ex_session_def)




lemma failing_audio_closes:
  assumes "status S = Open st" and "sessions (proc S) sid = Some s"
    and "msg_type m = Some ''audio''" and "msg_data m = Decoded bs" and "enable_audio (proc S)"
    and "length bs mod 4 = 0"
    and "audio_analyze E bs (msg_timestamp_ms m) (get_default (msg_sample_rate m) 16000) = Inl e"
  shows "process_audio E (proc S) sid bs (msg_timestamp_ms m)
            (get_default (msg_sample_rate m) 16000) = (Inl e, proc S)"
    and "stream_step sid ws S (E, Message m) =
            S\<lparr>status := Closed, manager := unregister (manager S) sid ws,
              sent := sent S @ [ErrorMessage e]\<rparr>"
proof -
  show p: "process_audio E (proc S) sid bs (msg_timestamp_ms m)
            (get_default (msg_sample_rate m) 16000) = (Inl e, proc S)"
    using assms(2,5,6,7) by (simp add: process_audio_def np_frombuffer_float32_def)
  have "dispatch E (proc S) sid st m = (Inl e, proc S, [])"
    using assms(4) p by (simp add: dispatch_audio [OF assms(3)] b64decode_def)
  then have "handle_message E (proc S) sid st m = (Inl e, proc S, [])"
    by (rule handle_message_error)
  from stream_step_error [OF assms(1) this]
  show "stream_step sid ws S (E, Message m) =
            S\<lparr>status := Closed, manager := unregister (manager S) sid ws,
              sent := sent S @ [ErrorMessage e]\<rparr>"
    by simp
qed

lemma failing_vision_closes:
  assumes "status S = Open st" and "sessions (proc S) sid = Some s"
    and "msg_type m = Some ''frame''" and "msg_data m = Decoded bs" and "enable_vision (proc S)"
    and "frame_sample_rate (proc S) \<noteq> 0"
    and "(frame_counter (proc S) + 1) mod frame_sample_rate (proc S) = 0"
    and "cv2_imdecode E bs = Some img"
    and "vision_analyze E img (py_or (msg_frame_number m) (frame_counter (proc S) + 1))
              (msg_timestamp_ms m) = Inl e"
  shows "process_frame E (proc S) sid bs (msg_timestamp_ms m) (msg_frame_number m) =
            (Inl e, (proc S)\<lparr>frame_counter := frame_counter (proc S) + 1\<rparr>)"
    and "stream_step sid ws S (E, Message m) =
            S\<lparr>status := Closed,
              proc := (proc S)\<lparr>frame_counter := frame_counter (proc S) + 1\<rparr>,
              manager := unregister (manager S) sid ws,
              sent := sent S @ [ErrorMessage e]\<rparr>"
proof -
  let ?P1 = "(proc S)\<lparr>frame_counter := frame_counter (proc S) + 1\<rparr>"
  show p: "process_frame E (proc S) sid bs (msg_timestamp_ms m) (msg_frame_number m) =
            (Inl e, ?P1)"
    using assms(2,5-9) by (simp add: process_frame_def Let_def)
  have "dispatch E (proc S) sid st m = (Inl e, ?P1, [])"
    using assms(4) p by (simp add: dispatch_frame [OF assms(3)] b64decode_def)
  then have "handle_message E (proc S) sid st m = (Inl e, ?P1, [])"
    by (rule handle_message_error)
  from stream_step_error [OF assms(1) this]
  show "stream_step sid ws S (E, Message m) =
            S\<lparr>status := Closed, proc := ?P1, manager := unregister (manager S) sid ws,
              sent := sent S @ [ErrorMessage e]\<rparr>"
    by simp
qed

text \<open>
  C3 (as amended). When the audio analyzer raises on a decodable audio message of an
  existing session, or the video analyzer raises on a frame that passed the sampling
  gate and was decoded, the exception leaves \<open>process_audio\<close> or \<open>process_frame\<close>
  uncaught; the gateway sends the client an error message, unregisters the websocket
  and ends the stream. The session store is unchanged, so the session continues; for a
  frame the process-wide frame counter has advanced.
\<close>

theorem extractor_failure_propagates:
  "status S = Open st \<and> sessions (proc S) sid = Some s \<longrightarrow>
     (msg_type m = Some ''audio'' \<and> msg_data m = Decoded bs \<and> enable_audio (proc S)
        \<and> length bs mod 4 = 0
        \<and> audio_analyze E bs (msg_timestamp_ms m) (get_default (msg_sample_rate m) 16000) = Inl e
      \<longrightarrow>
        process_audio E (proc S) sid bs (msg_timestamp_ms m)
            (get_default (msg_sample_rate m) 16000) = (Inl e, proc S)
        \<and> stream_step sid ws S (E, Message m) =
            S\<lparr>status := Closed, manager := unregister (manager S) sid ws,
              sent := sent S @ [ErrorMessage e]\<rparr>)
   \<and> (msg_type m = Some ''frame'' \<and> msg_data m = Decoded bs \<and> enable_vision (proc S)
        \<and> frame_sample_rate (proc S) \<noteq> 0
        \<and> (frame_counter (proc S) + 1) mod frame_sample_rate (proc S) = 0
        \<and> cv2_imdecode E bs = Some img
        \<and> vision_analyze E img (py_or (msg_frame_number m) (frame_counter (proc S) + 1))
              (msg_timestamp_ms m) = Inl e
      \<longrightarrow>
        process_frame E (proc S) sid bs (msg_timestamp_ms m) (msg_frame_number m) =
            (Inl e, (proc S)\<lparr>frame_counter := frame_counter (proc S) + 1\<rparr>)
        \<and> stream_step sid ws S (E, Message m) =
            S\<lparr>status := Closed,
              proc := (proc S)\<lparr>frame_counter := frame_counter (proc S) + 1\<rparr>,
              manager := unregister (manager S) sid ws,
              sent := sent S @ [ErrorMessage e]\<rparr>)"
proof (intro impI conjI)
  assume o: "status S = Open st \<and> sessions (proc S) sid = Some s"
  {
    assume a: "msg_type m = Some ''audio'' \<and> msg_data m = Decoded bs \<and> enable_audio (proc S)
        \<and> length bs mod 4 = 0
        \<and> audio_analyze E bs (msg_timestamp_ms m) (get_default (msg_sample_rate m) 16000) = Inl e"
    from o a show "process_audio E (proc S) sid bs (msg_timestamp_ms m)
            (get_default (msg_sample_rate m) 16000) = (Inl e, proc S)"
      by (simp add: failing_audio_closes(1))
    from o a show "stream_step sid ws S (E, Message m) =
            S\<lparr>status := Closed, manager := unregister (manager S) sid ws,
              sent := sent S @ [ErrorMessage e]\<rparr>"
      by (simp add: failing_audio_closes(2))
  }
  {
    assume v: "msg_type m = Some ''frame'' \<and> msg_data m = Decoded bs \<and> enable_vision (proc S)
        \<and> frame_sample_rate (proc S) \<noteq> 0
        \<and> (frame_counter (proc S) + 1) mod frame_sample_rate (proc S) = 0
        \<and> cv2_imdecode E bs = Some img
        \<and> vision_analyze E img (py_or (msg_frame_number m) (frame_counter (proc S) + 1))
              (msg_timestamp_ms m) = Inl e"
    from o v show "process_frame E (proc S) sid bs (msg_timestamp_ms m) (msg_frame_number m) =
            (Inl e, (proc S)\<lparr>frame_counter := frame_counter (proc S) + 1\<rparr>)"
      by (simp add: failing_vision_closes(1))
    from o v show "stream_step sid ws S (E, Message m) =
            S\<lparr>status := Closed,
              proc := (proc S)\<lparr>frame_counter := frame_counter (proc S) + 1\<rparr>,
              manager := unregister (manager S) sid ws,
              sent := sent S @ [ErrorMessage e]\<rparr>"
      by (simp add: failing_vision_closes(2))
  }
qed

theorem extractor_failure_propagates_witness:
  "stream_step ''s1'' 1 ex_stream
       (ex_env_raising, Message (ex_msg ''audio'' (JNumber 10) (Decoded [0, 0, 0, 0])))
     = ex_stream\<lparr>status := Closed, manager := unregister (manager ex_stream) ''s1'' 1,
         sent := sent ex_stream @ [ErrorMessage (CollaboratorError ''audio'')]\<rparr>
   \<and> stream_step ''s1'' 1 (ex_stream\<lparr>proc := ex_processor\<lparr>frame_counter := 2\<rparr>\<rparr>)
       (ex_env_raising, Message (ex_msg ''frame'' (JNumber 10) (Decoded [7])))
     = ex_stream\<lparr>status := Closed, proc := ex_processor\<lparr>frame_counter := 3\<rparr>,
         manager := unregister (manager ex_stream) ''s1'' 1,
         sent := sent ex_stream @ [ErrorMessage (CollaboratorError ''vision'')]\<rparr>"
  using
    extractor_failure_propagates
      [of ex_stream "\<lparr>latest_audio_metrics = None, latest_vision_metrics = None,
                       last_feedback_time = 0\<rparr>" "''s1''"
          "(ex_session [])\<lparr>frame_count := 0, audio_chunk_count := 0\<rparr>"
          "ex_msg ''audio'' (JNumber 10) (Decoded [0, 0, 0, 0])" "[0, 0, 0, 0]" ex_env_raising
          "CollaboratorError ''audio''" 1]
    extractor_failure_propagates
      [of "ex_stream\<lparr>proc := ex_processor\<lparr>frame_counter := 2\<rparr>\<rparr>"
          "\<lparr>latest_audio_metrics = None, latest_vision_metrics = None,
            last_feedback_time = 0\<rparr>" "''s1''"
          "(ex_session [])\<lparr>frame_count := 0, audio_chunk_count := 0\<rparr>"
          "ex_msg ''frame'' (JNumber 10) (Decoded [7])" "[7]" ex_env_raising
          "CollaboratorError ''vision''" 1 "[7]"]
  by (simp add: ex_stream_simps ex_processor_simps ex_msg_def ex_env_raising_def ex_env_def
      get_default_def py_or_def)

text \<open>
  An audio message on which the analyzer raises, sent on an open stream of an existing
  session, ends the stream.
\<close>

theorem extractor_failure_counterexample:
  "sessions (proc ex_stream) ''s1'' \<noteq> None \<and> is_open ex_stream
   \<and> \<not> is_open (stream_step ''s1'' 1 ex_stream
         (ex_env_raising, Message (ex_msg ''audio'' (JNumber 10) (Decoded [0, 0, 0, 0]))))"
  by (simp add: ex_stream_simps ex_processor_simps is_open_def stream_step_def
      handle_message_def dispatch_def b64decode_def ex_msg_def process_audio_def
      np_frombuffer_float32_def ex_env_raising_def ex_env_def)

subsection \<open>Heartbeats and the cadence gate\<close>

lemma generate_feedback_effects:
  assumes "generate_feedback E P sid a v ts = (r, P1)"
  shows "frame_counter P1 = frame_counter P"
    and "map_option frame_count (sessions P1 x) = map_option frame_count (sessions P x)"
    and "map_option audio_chunk_count (sessions P1 x) = map_option audio_chunk_count (sessions P x)"
  using assms
  by (auto simp: generate_feedback_def Let_def split: option.splits if_splits)

lemma cadence_processor:
  assumes "cadence E P sid st ts = (r, P2, out)"
  shows "P2 = P \<or> (\<exists>now r1. generate_feedback E P sid (latest_audio_metrics st)
                        (latest_vision_metrics st) (Some now) = (r1, P2))"
  using assms
  by (fastforce simp: cadence_def split: option.splits if_splits prod.splits sum.splits)

lemma cadence_effects:
  assumes "cadence E P sid st ts = (r, P2, out)"
  shows "frame_counter P2 = frame_counter P"
    and "map_option frame_count (sessions P2 x) = map_option frame_count (sessions P x)"
    and "map_option audio_chunk_count (sessions P2 x) = map_option audio_chunk_count (sessions P x)"
    and "r = Inr st' \<Longrightarrow> latest_audio_metrics st' = latest_audio_metrics st
           \<and> latest_vision_metrics st' = latest_vision_metrics st"
proof -
  from cadence_processor [OF assms] consider "P2 = P"
    | now r1 where "generate_feedback E P sid (latest_audio_metrics st)
                        (latest_vision_metrics st) (Some now) = (r1, P2)"
    by blast
  then have "frame_counter P2 = frame_counter P
      \<and> map_option frame_count (sessions P2 x) = map_option frame_count (sessions P x)
      \<and> map_option audio_chunk_count (sessions P2 x)
          = map_option audio_chunk_count (sessions P x)"
  proof cases
    case 1
    then show ?thesis by simp
  next
    case 2
    from generate_feedback_effects [OF 2] show ?thesis by simp
  qed
  then show "frame_counter P2 = frame_counter P"
    and "map_option frame_count (sessions P2 x) = map_option frame_count (sessions P x)"
    and "map_option audio_chunk_count (sessions P2 x) = map_option audio_chunk_count (sessions P x)"
    by simp_all
  show "r = Inr st' \<Longrightarrow> latest_audio_metrics st' = latest_audio_metrics st
           \<and> latest_vision_metrics st' = latest_vision_metrics st"
    using assms
    by (auto simp: cadence_def split: option.splits if_splits prod.splits sum.splits)
qed

lemma cadence_no_fire:
  assumes "\<not> cadence_fires E st ts" and "cadence E P sid st ts = (r, P2, out)"
  shows "P2 = P"
  using assms
  by (auto simp: cadence_def cadence_fires_def split: option.splits if_splits)

lemma cadence_history:
  assumes "cadence_fires E st ts" and "py_number (current_time E ts) = Some now"
    and "sessions P sid = Some s" and "cadence E P sid st ts = (r, P2, out)"
  shows "sessions P2 sid =
     Some (s\<lparr>score_history := append_history (score_history s)
        \<lparr>h_timestamp_ms = now,
         h_scores = calculate_scores (latest_audio_metrics st) (latest_vision_metrics st)
            (baseline s)\<rparr>\<rparr>)"
proof -
  have "P2 = snd (generate_feedback E P sid (latest_audio_metrics st)
      (latest_vision_metrics st) (Some now))"
    using assms(1,2,4)
    by (auto simp: cadence_def cadence_fires_def split: prod.splits sum.splits)
  then show ?thesis
    using assms(3) by (simp add: generate_feedback_def Let_def)
qed

lemma stream_step_message:
  assumes "status S = Open st" and "handle_message E (proc S) sid st m = (r, P1, out)"
  shows "proc (stream_step sid ws S (E, Message m)) = P1"
    and "\<exists>rest. sent (stream_step sid ws S (E, Message m)) = sent S @ out @ rest"
    and "status (stream_step sid ws S (E, Message m)) = Open st' \<Longrightarrow> r = Inr st'"
  using assms by (cases r; simp add: stream_step_def)+

lemma heartbeat_handle:
  assumes "msg_type m = Some ''heartbeat''"
    and "cadence E P sid st (msg_timestamp_ms m) = (r, P2, out)"
  shows "handle_message E P sid st m = (r, P2, Ack (msg_timestamp_ms m) # out)"
  using assms(2) by (simp add: handle_message_cadence [OF dispatch_heartbeat [OF assms(1)]])

text \<open>
  C4 (as amended). On an open stream a heartbeat is answered first with an ack that
  carries the heartbeat's timestamp. It changes neither the process-wide frame counter
  nor any session's frame or audio counter nor the latest metrics of the connection.
  The cadence gate runs after the ack. When it does not fire the processor, and with it
  every score history, is unchanged: nothing else changes and nothing else is sent if
  the timestamp can be subtracted from, and the stream ends with an error message after
  the ack if the timestamp is a non-empty value that is not a number. When the gate
  fires and the session exists, one entry is appended to the session's score history
  (capped at 50).
\<close>

theorem heartbeat_effects:
  "status S = Open st \<and> msg_type m = Some ''heartbeat'' \<longrightarrow>
     (let S' = stream_step sid ws S (E, Message m)
      in (\<exists>rest. sent S' = sent S @ Ack (msg_timestamp_ms m) # rest)
       \<and> frame_counter (proc S') = frame_counter (proc S)
       \<and> (\<forall>x. map_option frame_count (sessions (proc S') x)
                = map_option frame_count (sessions (proc S) x))
       \<and> (\<forall>x. map_option audio_chunk_count (sessions (proc S') x)
                = map_option audio_chunk_count (sessions (proc S) x))
       \<and> (\<forall>st'. status S' = Open st' \<longrightarrow>
             latest_audio_metrics st' = latest_audio_metrics st
             \<and> latest_vision_metrics st' = latest_vision_metrics st)
       \<and> (\<not> cadence_fires E st (msg_timestamp_ms m) \<longrightarrow> proc S' = proc S)
       \<and> (\<not> cadence_fires E st (msg_timestamp_ms m)
            \<and> py_number (current_time E (msg_timestamp_ms m)) \<noteq> None \<longrightarrow>
             S' = S\<lparr>sent := sent S @ [Ack (msg_timestamp_ms m)]\<rparr>)
       \<and> (py_number (current_time E (msg_timestamp_ms m)) = None \<longrightarrow>
             S' = S\<lparr>status := Closed, manager := unregister (manager S) sid ws,
                    sent := sent S @ [Ack (msg_timestamp_ms m), ErrorMessage TypeError]\<rparr>)
       \<and> (\<forall>s now. cadence_fires E st (msg_timestamp_ms m)
              \<and> py_number (current_time E (msg_timestamp_ms m)) = Some now
              \<and> sessions (proc S) sid = Some s \<longrightarrow>
             sessions (proc S') sid =
               Some (s\<lparr>score_history := append_history (score_history s)
                  \<lparr>h_timestamp_ms = now,
                   h_scores = calculate_scores (latest_audio_metrics st)
                      (latest_vision_metrics st) (baseline s)\<rparr>\<rparr>)))"
proof (intro impI)
  assume a: "status S = Open st \<and> msg_type m = Some ''heartbeat''"
  then have o: "status S = Open st" and t: "msg_type m = Some ''heartbeat''" by simp_all
  let ?S' = "stream_step sid ws S (E, Message m)"
  obtain r P2 out where c: "cadence E (proc S) sid st (msg_timestamp_ms m) = (r, P2, out)"
    by (cases "cadence E (proc S) sid st (msg_timestamp_ms m)") auto
  have h: "handle_message E (proc S) sid st m = (r, P2, Ack (msg_timestamp_ms m) # out)"
    using t c by (rule heartbeat_handle)
  have p: "proc ?S' = P2"
    using o h by (rule stream_step_message(1))
  have 1: "\<exists>rest. sent ?S' = sent S @ Ack (msg_timestamp_ms m) # rest"
    using stream_step_message(2) [OF o h, of ws] by auto
  have 2: "frame_counter (proc ?S') = frame_counter (proc S)"
    using cadence_effects(1) [OF c] p by simp
  have 3: "\<forall>x. map_option frame_count (sessions (proc ?S') x)
                = map_option frame_count (sessions (proc S) x)"
    using cadence_effects(2) [OF c] p by simp
  have 4: "\<forall>x. map_option audio_chunk_count (sessions (proc ?S') x)
                = map_option audio_chunk_count (sessions (proc S) x)"
    using cadence_effects(3) [OF c] p by simp
  have 5: "\<forall>st'. status ?S' = Open st' \<longrightarrow>
             latest_audio_metrics st' = latest_audio_metrics st
             \<and> latest_vision_metrics st' = latest_vision_metrics st"
    using stream_step_message(3) [OF o h] cadence_effects(4) [OF c] by blast
  have 6: "\<not> cadence_fires E st (msg_timestamp_ms m) \<longrightarrow> proc ?S' = proc S"
    using cadence_no_fire [OF _ c] p by simp
  have 7: "\<not> cadence_fires E st (msg_timestamp_ms m)
            \<and> py_number (current_time E (msg_timestamp_ms m)) \<noteq> None \<longrightarrow>
             ?S' = S\<lparr>sent := sent S @ [Ack (msg_timestamp_ms m)]\<rparr>"
  proof
    assume "\<not> cadence_fires E st (msg_timestamp_ms m)
            \<and> py_number (current_time E (msg_timestamp_ms m)) \<noteq> None"
    then have "cadence E (proc S) sid st (msg_timestamp_ms m) = (Inr st, proc S, [])"
      by (simp add: cadence_idle)
    then have "handle_message E (proc S) sid st m
        = (Inr st, proc S, [Ack (msg_timestamp_ms m)])"
      using t by (simp add: heartbeat_handle)
    from stream_step_continue [OF o this] o
    show "?S' = S\<lparr>sent := sent S @ [Ack (msg_timestamp_ms m)]\<rparr>"
      by simp
  qed
  have 8: "py_number (current_time E (msg_timestamp_ms m)) = None \<longrightarrow>
             ?S' = S\<lparr>status := Closed, manager := unregister (manager S) sid ws,
                    sent := sent S @ [Ack (msg_timestamp_ms m), ErrorMessage TypeError]\<rparr>"
  proof
    assume "py_number (current_time E (msg_timestamp_ms m)) = None"
    then have "cadence E (proc S) sid st (msg_timestamp_ms m) = (Inl TypeError, proc S, [])"
      by (rule cadence_type_error)
    then have "handle_message E (proc S) sid st m
        = (Inl TypeError, proc S, [Ack (msg_timestamp_ms m)])"
      using t by (simp add: heartbeat_handle)
    from stream_step_error [OF o this]
    show "?S' = S\<lparr>status := Closed, manager := unregister (manager S) sid ws,
                    sent := sent S @ [Ack (msg_timestamp_ms m), ErrorMessage TypeError]\<rparr>"
      by simp
  qed
  have 9: "\<forall>s now. cadence_fires E st (msg_timestamp_ms m)
              \<and> py_number (current_time E (msg_timestamp_ms m)) = Some now
              \<and> sessions (proc S) sid = Some s \<longrightarrow>
             sessions (proc ?S') sid =
               Some (s\<lparr>score_history := append_history (score_history s)
                  \<lparr>h_timestamp_ms = now,
                   h_scores = calculate_scores (latest_audio_metrics st)
                      (latest_vision_metrics st) (baseline s)\<rparr>\<rparr>)"
    using cadence_history [OF _ _ _ c] p by simp
  from 1 2 3 4 5 6 7 8 9 show "let S' = ?S' in
      (\<exists>rest. sent S' = sent S @ Ack (msg_timestamp_ms m) # rest)
       \<and> frame_counter (proc S') = frame_counter (proc S)
       \<and> (\<forall>x. map_option frame_count (sessions (proc S') x)
                = map_option frame_count (sessions (proc S) x))
       \<and> (\<forall>x. map_option audio_chunk_count (sessions (proc S') x)
                = map_option audio_chunk_count (sessions (proc S) x))
       \<and> (\<forall>st'. status S' = Open st' \<longrightarrow>
             latest_audio_metrics st' = latest_audio_metrics st
             \<and> latest_vision_metrics st' = latest_vision_metrics st)
       \<and> (\<not> cadence_fires E st (msg_timestamp_ms m) \<longrightarrow> proc S' = proc S)
       \<and> (\<not> cadence_fires E st (msg_timestamp_ms m)
            \<and> py_number (current_time E (msg_timestamp_ms m)) \<noteq> None \<longrightarrow>
             S' = S\<lparr>sent := sent S @ [Ack (msg_timestamp_ms m)]\<rparr>)
       \<and> (py_number (current_time E (msg_timestamp_ms m)) = None \<longrightarrow>
             S' = S\<lparr>status := Closed, manager := unregister (manager S) sid ws,
                    sent := sent S @ [Ack (msg_timestamp_ms m), ErrorMessage TypeError]\<rparr>)
       \<and> (\<forall>s now. cadence_fires E st (msg_timestamp_ms m)
              \<and> py_number (current_time E (msg_timestamp_ms m)) = Some now
              \<and> sessions (proc S) sid = Some s \<longrightarrow>
             sessions (proc S') sid =
               Some (s\<lparr>score_history := append_history (score_history s)
                  \<lparr>h_timestamp_ms = now,
                   h_scores = calculate_scores (latest_audio_metrics st)
                      (latest_vision_metrics st) (baseline s)\<rparr>\<rparr>))"
    unfolding Let_def by (intro conjI)
qed

text \<open>
  After an audio message at timestamp 10, a heartbeat at timestamp 5000 crosses the
  cadence gate and the session's score history grows from 0 entries to 1.
\<close>

theorem heartbeat_history_counterexample:
  "map_option score_history (sessions (proc ex_stream_audio) ''s1'') = Some []
   \<and> map_option (\<lambda>s. length (score_history s))
        (sessions (proc (stream_step ''s1'' 1 ex_stream_audio
            (ex_env, Message (ex_msg ''heartbeat'' (JNumber 5000) Absent)))) ''s1'') = Some 1"
  by (simp add: ex_stream_audio_simps stream_step_def handle_message_def dispatch_def
      ex_msg_def cadence_def current_time_def audio_truthy_def audio_to_dict_def
      generate_feedback_def Let_def redis_raises_def ex_session_def append_history_def
      split: prod.splits sum.splits)

theorem heartbeat_effects_witness:
  "stream_step ''s1'' 1 ex_stream_audio
       (ex_env, Message (ex_msg ''heartbeat'' (JNumber 10) Absent))
     = ex_stream_audio\<lparr>sent := sent ex_stream_audio @ [Ack (JNumber 10)]\<rparr>
   \<and> stream_step ''s1'' 1 ex_stream_audio
       (ex_env, Message (ex_msg ''heartbeat'' (JString ''soon'') Absent))
     = ex_stream_audio\<lparr>status := Closed, manager := unregister (manager ex_stream_audio) ''s1'' 1,
         sent := sent ex_stream_audio @ [Ack (JString ''soon''), ErrorMessage TypeError]\<rparr>
   \<and> (\<exists>rest. sent (stream_step ''s1'' 1 ex_stream_audio
                  (ex_env, Message (ex_msg ''heartbeat'' (JNumber 5000) Absent)))
         = sent ex_stream_audio @ Ack (JNumber 5000) # rest)
   \<and> map_option audio_chunk_count
        (sessions (proc (stream_step ''s1'' 1 ex_stream_audio
            (ex_env, Message (ex_msg ''heartbeat'' (JNumber 5000) Absent)))) ''s1'') = Some 1
   \<and> map_option (\<lambda>s. map h_timestamp_ms (score_history s))
        (sessions (proc (stream_step ''s1'' 1 ex_stream_audio
            (ex_env, Message (ex_msg ''heartbeat'' (JNumber 5000) Absent)))) ''s1'')
       = Some [5000]"
proof -
  let ?sa = "\<lparr>latest_audio_metrics = Some (audio_to_dict ex_audio_result),
               latest_vision_metrics = None, last_feedback_time = 0\<rparr>"
  note t = heartbeat_effects
  have 1: "stream_step ''s1'' 1 ex_stream_audio
       (ex_env, Message (ex_msg ''heartbeat'' (JNumber 10) Absent))
     = ex_stream_audio\<lparr>sent := sent ex_stream_audio @ [Ack (JNumber 10)]\<rparr>"
    using t [of ex_stream_audio ?sa "ex_msg ''heartbeat'' (JNumber 10) Absent" "''s1''" 1 ex_env]
    by (simp add: Let_def ex_stream_audio_simps ex_msg_def cadence_fires_def current_time_def)
  have 2: "stream_step ''s1'' 1 ex_stream_audio
       (ex_env, Message (ex_msg ''heartbeat'' (JString ''soon'') Absent))
     = ex_stream_audio\<lparr>status := Closed, manager := unregister (manager ex_stream_audio) ''s1'' 1,
         sent := sent ex_stream_audio @ [Ack (JString ''soon''), ErrorMessage TypeError]\<rparr>"
    using t [of ex_stream_audio ?sa "ex_msg ''heartbeat'' (JString ''soon'') Absent" "''s1''" 1
        ex_env]
    by (simp add: Let_def ex_stream_audio_simps ex_msg_def cadence_fires_def current_time_def)
  have f: "cadence_fires ex_env ?sa (JNumber 5000)"
    and n: "py_number (current_time ex_env (JNumber 5000)) = Some 5000"
    by (simp_all add: current_time_def cadence_fires_def audio_truthy_def audio_to_dict_def)
  have 3: "(\<exists>rest. sent (stream_step ''s1'' 1 ex_stream_audio
                  (ex_env, Message (ex_msg ''heartbeat'' (JNumber 5000) Absent)))
         = sent ex_stream_audio @ Ack (JNumber 5000) # rest)
   \<and> map_option audio_chunk_count
        (sessions (proc (stream_step ''s1'' 1 ex_stream_audio
            (ex_env, Message (ex_msg ''heartbeat'' (JNumber 5000) Absent)))) ''s1'') = Some 1
   \<and> map_option (\<lambda>s. map h_timestamp_ms (score_history s))
        (sessions (proc (stream_step ''s1'' 1 ex_stream_audio
            (ex_env, Message (ex_msg ''heartbeat'' (JNumber 5000) Absent)))) ''s1'')
       = Some [5000]"
    using t [of ex_stream_audio ?sa "ex_msg ''heartbeat'' (JNumber 5000) Absent" "''s1''" 1 ex_env]
      f n
    by (simp add: Let_def ex_stream_audio_simps ex_msg_def ex_session_def append_history_def)
  from 1 2 3 show ?thesis by blast
qed

subsection \<open>Frames rejected by the sampling gate\<close>








end
